theory Spec2Isabelle
  imports Complex_Main "HOL-Library.Char_ord" "HOL-Library.List_Lexorder" "HOL-Library.Multiset"
begin

section \<open>Python values shared by the services\<close>

text \<open>
  Python floats are modelled as exact reals; the optional numeric fields of the
  pydantic models and of the market-data dictionary are \<open>real option\<close>, with
  \<open>None\<close> for Python's \<open>None\<close> (and for an absent dictionary key read with \<open>.get\<close>).
\<close>

datatype py_error = ZeroDivisionError | TypeError | ValueError | AttributeError
  | ValidationError | KeyError | OSError | OverflowError

text \<open>Truthiness of an optional number: \<open>None\<close> and \<open>0\<close> are falsy.\<close>

definition truthy :: "real option \<Rightarrow> bool" where
  "truthy v = (case v of None \<Rightarrow> False | Some x \<Rightarrow> x \<noteq> 0)"

text \<open>Python's \<open>a or b\<close>: the first operand when it is truthy, the second otherwise.\<close>

definition py_or :: "real option \<Rightarrow> real option \<Rightarrow> real option" where
  "py_or a b = (if truthy a then a else b)"

text \<open>Python's true division raises on a zero divisor.\<close>

definition py_truediv :: "real \<Rightarrow> real \<Rightarrow> py_error + real" where
  "py_truediv a b = (if b = 0 then Inl ZeroDivisionError else Inr (a / b))"

section \<open>models/holdings.py and models/analysis.py\<close>

record holding =
  h_symbol :: string
  h_name :: string
  h_shares :: real
  h_average_cost :: "real option"
  h_current_price :: "real option"
  h_market_value :: "real option"
  h_sector :: "string option"

record holding_performance =
  hp_symbol :: string
  hp_name :: string
  hp_shares :: real
  hp_current_price :: "real option"
  hp_previous_close :: "real option"
  hp_change_amount :: "real option"
  hp_change_percent :: "real option"
  hp_day_high :: "real option"
  hp_day_low :: "real option"
  hp_volume :: "int option"
  hp_market_value :: "real option"
  hp_is_high_fluctuation :: bool

record fluctuation_alert =
  fa_symbol :: string
  fa_name :: string
  fa_change_percent :: real
  fa_change_amount :: "real option"
  fa_current_price :: "real option"
  fa_previous_close :: "real option"
  fa_direction :: string
  fa_volume :: "int option"

section \<open>services/performance\_analyzer.py\<close>

text \<open>
  The \<open>info\<close> dictionary of a ticker, restricted to the keys the analyzer reads.
  \<open>shortName\<close> is read with a default, so an absent key differs from a key holding a
  value that is not a string (\<open>None\<close> included), which the models refuse.
\<close>

datatype name_field = Absent | Null | Name string

record quote_info =
  currentPrice :: "real option"
  regularMarketPrice :: "real option"
  previousClose :: "real option"
  regularMarketPreviousClose :: "real option"
  dayHigh :: "real option"
  dayLow :: "real option"
  volume :: "int option"
  shortName :: name_field
  earningsTimestamp :: "int option"

text \<open>Lines 79-87 of \<open>_get_stock_performance\<close>: change amount, change percent, flag.\<close>

definition compute_change ::
  "real \<Rightarrow> real option \<Rightarrow> real option \<Rightarrow> py_error + (real option \<times> real option \<times> bool)" where
  "compute_change fluctuation_threshold current_price previous_close =
     (case (current_price, previous_close) of
        (Some c, Some p) \<Rightarrow>
          if truthy (Some c) \<and> truthy (Some p) then
            (let change_amount = c - p in
             case py_truediv change_amount p of
               Inl e \<Rightarrow> Inl e
             | Inr q \<Rightarrow>
                 (let change_percent = q * 100 in
                  Inr (Some change_amount, Some change_percent,
                       \<bar>change_percent\<bar> \<ge> fluctuation_threshold)))
          else Inr (None, None, False)
      | _ \<Rightarrow> Inr (None, None, False))"

text \<open>The record built in the \<open>except\<close> branch.\<close>

definition degraded :: "holding \<Rightarrow> holding_performance" where
  "degraded h = \<lparr> hp_symbol = h_symbol h, hp_name = h_name h, hp_shares = h_shares h,
     hp_current_price = None, hp_previous_close = None,
     hp_change_amount = None, hp_change_percent = None,
     hp_day_high = None, hp_day_low = None, hp_volume = None,
     hp_market_value = None, hp_is_high_fluctuation = False \<rparr>"

text \<open>\<open>holding.name or info.get("shortName", "")\<close>; a \<open>None\<close> name fails validation.\<close>

definition resolve_name :: "holding \<Rightarrow> quote_info \<Rightarrow> py_error + string" where
  "resolve_name h info =
     (if h_name h \<noteq> [] then Inr (h_name h)
      else case shortName info of
             Absent \<Rightarrow> Inr []
           | Null \<Rightarrow> Inl ValidationError
           | Name s \<Rightarrow> Inr s)"

text \<open>
  \<open>_get_stock_performance\<close>. The first argument is the configured threshold, the second
  the outcome of reading \<open>yf.Ticker(symbol).info\<close> (which may raise).
\<close>

definition get_stock_performance ::
  "real \<Rightarrow> py_error + quote_info \<Rightarrow> holding \<Rightarrow> holding_performance" where
  "get_stock_performance fluctuation_threshold lookup h =
     (case lookup of
        Inl e \<Rightarrow> degraded h
      | Inr info \<Rightarrow>
          (let current_price = py_or (currentPrice info) (regularMarketPrice info);
               previous_close = py_or (previousClose info) (regularMarketPreviousClose info)
           in case compute_change fluctuation_threshold current_price previous_close of
                Inl e \<Rightarrow> degraded h
              | Inr (change_amount, change_percent, is_high_fluctuation) \<Rightarrow>
                  (let market_value =
                         (if truthy current_price \<and> h_shares h \<noteq> 0
                          then map_option (\<lambda>c. c * h_shares h) current_price else None)
                   in case resolve_name h info of
                        Inl e \<Rightarrow> degraded h
                      | Inr nm \<Rightarrow>
                          \<lparr> hp_symbol = h_symbol h, hp_name = nm, hp_shares = h_shares h,
                            hp_current_price = current_price,
                            hp_previous_close = previous_close,
                            hp_change_amount = change_amount,
                            hp_change_percent = change_percent,
                            hp_day_high = dayHigh info, hp_day_low = dayLow info,
                            hp_volume = volume info,
                            hp_market_value = market_value,
                            hp_is_high_fluctuation = is_high_fluctuation \<rparr>)))"

text \<open>\<open>_fetch_quote\<close>, lines 167-172: the price, the previous close, the change percent.\<close>

definition fetch_quote_change :: "quote_info \<Rightarrow> py_error + (real option \<times> real option \<times> real option)" where
  "fetch_quote_change info =
     (let current_price = py_or (currentPrice info) (regularMarketPrice info);
          previous_close = previousClose info
      in case (current_price, previous_close) of
           (Some c, Some p) \<Rightarrow>
             if truthy (Some c) \<and> truthy (Some p) then
               (case py_truediv (c - p) p of
                  Inl e \<Rightarrow> Inl e
                | Inr q \<Rightarrow> Inr (current_price, previous_close, Some (q * 100)))
             else Inr (current_price, previous_close, None)
         | _ \<Rightarrow> Inr (current_price, previous_close, None))"

text \<open>
  \<open>list.sort(key=..., reverse=True)\<close>: a stable sort into non-increasing key order
  (elements with equal keys keep their original order).
\<close>

definition sort_reverse :: "('a \<Rightarrow> 'b::linordered_idom) \<Rightarrow> 'a list \<Rightarrow> 'a list" where
  "sort_reverse key xs = sort_key (\<lambda>x. - key x) xs"

definition to_alert :: "holding_performance \<Rightarrow> real \<Rightarrow> fluctuation_alert" where
  "to_alert p cp = \<lparr> fa_symbol = hp_symbol p, fa_name = hp_name p,
     fa_change_percent = cp, fa_change_amount = hp_change_amount p,
     fa_current_price = hp_current_price p, fa_previous_close = hp_previous_close p,
     fa_direction = (if cp > 0 then ''up'' else ''down''), fa_volume = hp_volume p \<rparr>"

text \<open>The loop of \<open>get_fluctuation_alerts\<close>, lines 134-145.\<close>

fun collect_alerts :: "holding_performance list \<Rightarrow> fluctuation_alert list" where
  "collect_alerts [] = []"
| "collect_alerts (p # ps) =
     (case hp_change_percent p of
        Some cp \<Rightarrow> if hp_is_high_fluctuation p then to_alert p cp # collect_alerts ps
                   else collect_alerts ps
      | None \<Rightarrow> collect_alerts ps)"

definition get_fluctuation_alerts :: "holding_performance list \<Rightarrow> fluctuation_alert list" where
  "get_fluctuation_alerts performances =
     sort_reverse (\<lambda>x. \<bar>fa_change_percent x\<bar>) (collect_alerts performances)"

section \<open>Strings\<close>

text \<open>\<open>str(n)\<close> for a non-negative integer, and for any integer.\<close>

definition digit_char :: "nat \<Rightarrow> char" where
  "digit_char d = char_of (48 + d)"

function show_nat :: "nat \<Rightarrow> string" where
  "show_nat n = (if n < 10 then [digit_char n] else show_nat (n div 10) @ [digit_char (n mod 10)])"
  by pat_completeness auto
termination
  by (relation "measure id") auto

declare show_nat.simps [simp del]

definition show_int :: "int \<Rightarrow> string" where
  "show_int i = (if i < 0 then CHR ''-'' # show_nat (nat (- i)) else show_nat (nat i))"

text \<open>\<open>sep.join(parts)\<close>.\<close>

fun join :: "string \<Rightarrow> string list \<Rightarrow> string" where
  "join sep [] = []"
| "join sep [x] = x"
| "join sep (x # y # ys) = x @ sep @ join sep (y # ys)"

text \<open>
  Characters are code points below 256. \<open>str.lower\<close> and \<open>str.upper\<close> on them: the ASCII
  letters and the accented letters from 192 to 254 change case, the sharp s (223) becomes
  \<open>SS\<close>; the micro sign (181) and the y with diaeresis (255), whose upper-case forms lie
  beyond 255, are kept as they are.
\<close>

definition lower_char :: "char \<Rightarrow> char" where
  "lower_char c =
     (let n = of_char c :: nat in
      if (65 \<le> n \<and> n \<le> 90) \<or> (192 \<le> n \<and> n \<le> 222 \<and> n \<noteq> 215) then char_of (n + 32) else c)"

definition upper_char :: "char \<Rightarrow> string" where
  "upper_char c =
     (let n = of_char c :: nat in
      if (97 \<le> n \<and> n \<le> 122) \<or> (224 \<le> n \<and> n \<le> 254 \<and> n \<noteq> 247) then [char_of (n - 32)]
      else if n = 223 then ''SS''
      else [c])"

definition lower :: "string \<Rightarrow> string" where
  "lower s = map lower_char s"

definition upper :: "string \<Rightarrow> string" where
  "upper s = concat (map upper_char s)"

section \<open>models/agent.py, the remaining models of models/analysis.py\<close>

text \<open>A \<open>datetime\<close> is a number of seconds on the time line.\<close>

type_synonym datetime = int

record earnings_event =
  ee_symbol :: string
  ee_name :: string
  ee_earnings_date :: datetime
  ee_time_of_day :: "string option"
  ee_eps_estimate :: "real option"
  ee_revenue_estimate :: "real option"
  ee_days_until :: int

record news_item =
  ni_symbol :: string
  ni_title :: string
  ni_publisher :: string
  ni_link :: string
  ni_published_at :: "datetime option"
  ni_summary :: "string option"
  ni_thumbnail_url :: "string option"

record agent_summary =
  as_summary :: string
  as_key_insights :: "string list"
  as_recommendations :: "string list"
  as_risk_factors :: "string list"
  as_generated_at :: datetime
  as_model_used :: string

record analyze_request =
  force_refresh :: bool
  include_news :: bool
  include_earnings :: bool

record analyze_response =
  ar_summary :: "agent_summary option"
  ar_fluctuation_alerts :: "fluctuation_alert list"
  ar_upcoming_earnings :: "earnings_event list"
  ar_news_items :: "news_item list"
  ar_holdings_count :: nat
  ar_analyzed_at :: datetime
  ar_status :: string
  ar_error :: "string option"

record performance_response =
  pr_holdings :: "holding_performance list"
  pr_high_fluctuation_count :: nat
  pr_total_value :: "real option"
  pr_analyzed_at :: datetime

section \<open>config.py and \<open>LLMAgent.is_configured\<close>\<close>

record settings =
  llm_provider :: string
  llm_model :: string
  openai_api_key :: string
  anthropic_api_key :: string
  local_llm_url :: string
  fluctuation_threshold :: real
  earnings_cache_hours :: int
  news_cache_minutes :: int

definition is_configured :: "settings \<Rightarrow> bool" where
  "is_configured st =
     (let provider = lower (llm_provider st) in
      if provider = ''openai'' then openai_api_key st \<noteq> []
      else if provider = ''anthropic'' then anthropic_api_key st \<noteq> []
      else if provider = ''local'' then local_llm_url st \<noteq> []
      else False)"

section \<open>\<open>PerformanceAnalyzer.analyze_holdings\<close>\<close>

text \<open>
  One lookup per holding, all awaited; \<open>yf\<close> is what the market-data provider answers
  for a symbol.
\<close>

definition analyze_holdings ::
  "real \<Rightarrow> (string \<Rightarrow> py_error + quote_info) \<Rightarrow> datetime \<Rightarrow> holding list \<Rightarrow> performance_response" where
  "analyze_holdings threshold yf now holdings =
     (let valid_performances = map (\<lambda>h. get_stock_performance threshold (yf (h_symbol h)) h) holdings;
          high_fluctuation_count = length (filter hp_is_high_fluctuation valid_performances);
          total_value = sum_list (map (\<lambda>p. case hp_market_value p of None \<Rightarrow> 0 | Some v \<Rightarrow> v)
                                      valid_performances)
      in \<lparr> pr_holdings = valid_performances,
           pr_high_fluctuation_count = high_fluctuation_count,
           pr_total_value = (if total_value > 0 then Some total_value else None),
           pr_analyzed_at = now \<rparr>)"

section \<open>routers/agent.py\<close>

text \<open>
  What the collaborators of one run answer. A stage either returns or raises; a raised
  exception is kept as its message (\<open>str(e)\<close>). Fetching the holdings can also fail with
  \<open>httpx.HTTPError\<close>, which the handler replaces by the mock portfolio.
\<close>

datatype fetch_result = Fetched "holding list" | HTTPError | FetchRaised string

record collaborators =
  c_fetch_holdings :: fetch_result
  c_analyze_holdings :: "holding list \<Rightarrow> string + performance_response"
  c_get_earnings_for_symbols :: "string list \<Rightarrow> string + earnings_event list"
  c_get_news_for_high_fluctuation :: "string list \<Rightarrow> string + news_item list"
  c_generate_summary :: "holding_performance list \<Rightarrow> fluctuation_alert list \<Rightarrow>
     earnings_event list \<Rightarrow> news_item list \<Rightarrow> string + agent_summary"
  c_utcnow :: datetime

definition mk_holding :: "string \<Rightarrow> string \<Rightarrow> real \<Rightarrow> real \<Rightarrow> holding" where
  "mk_holding symb nm sh cost = \<lparr> h_symbol = symb, h_name = nm, h_shares = sh,
     h_average_cost = Some cost, h_current_price = None, h_market_value = None,
     h_sector = None \<rparr>"

definition get_mock_holdings :: "holding list" where
  "get_mock_holdings =
     [mk_holding ''AAPL'' ''Apple Inc.'' 100 150,
      mk_holding ''MSFT'' ''Microsoft Corporation'' 50 350,
      mk_holding ''GOOGL'' ''Alphabet Inc.'' 25 140,
      mk_holding ''TSLA'' ''Tesla Inc.'' 30 200,
      mk_holding ''NVDA'' ''NVIDIA Corporation'' 40 500]"

text \<open>The summary built when no provider is configured (lines 113-125).\<close>

definition fallback_summary :: "nat \<Rightarrow> nat \<Rightarrow> nat \<Rightarrow> datetime \<Rightarrow> agent_summary" where
  "fallback_summary n_holdings n_fluctuations n_earnings now =
     \<lparr> as_summary = ''Portfolio analysis complete. '' @ show_nat n_holdings
          @ '' holdings analyzed, '' @ show_nat n_fluctuations
          @ '' showing significant movement.'',
       as_key_insights =
         [''Total holdings: '' @ show_nat n_holdings,
          ''High fluctuation stocks: '' @ show_nat n_fluctuations,
          ''Upcoming earnings: '' @ show_nat n_earnings],
       as_recommendations = [''Configure LLM API key for detailed AI analysis''],
       as_risk_factors = [],
       as_generated_at = now,
       as_model_used = ''none'' \<rparr>"

text \<open>
  The stages of the \<open>try\<close> block of \<open>analyze_portfolio\<close> (lines 73-125), each \<open>Inr\<close> its
  value or \<open>Inl\<close> the message of the exception it raises. Clearing the collectors' caches
  under \<open>force_refresh\<close> does not raise and touches only the collectors, whose answers
  are the collaborators' functions.
\<close>

definition holdings_stage :: "collaborators \<Rightarrow> string + holding list" where
  "holdings_stage c =
     (case c_fetch_holdings c of
        Fetched hs \<Rightarrow> Inr hs
      | HTTPError \<Rightarrow> Inr get_mock_holdings
      | FetchRaised m \<Rightarrow> Inl m)"

definition earnings_stage :: "analyze_request \<Rightarrow> collaborators \<Rightarrow> string list \<Rightarrow> string + earnings_event list" where
  "earnings_stage request c all_symbols =
     (if include_earnings request then c_get_earnings_for_symbols c all_symbols else Inr [])"

definition news_stage :: "analyze_request \<Rightarrow> collaborators \<Rightarrow> string list \<Rightarrow> string + news_item list" where
  "news_stage request c fluctuation_symbols =
     (if include_news request \<and> fluctuation_symbols \<noteq> []
      then c_get_news_for_high_fluctuation c fluctuation_symbols else Inr [])"

definition summary_stage ::
  "settings \<Rightarrow> collaborators \<Rightarrow> holding list \<Rightarrow> holding_performance list \<Rightarrow> fluctuation_alert list
     \<Rightarrow> earnings_event list \<Rightarrow> news_item list \<Rightarrow> string + agent_summary" where
  "summary_stage st c holdings performances fluctuations earnings news =
     (if is_configured st then c_generate_summary c performances fluctuations earnings news
      else Inr (fallback_summary (length holdings) (length fluctuations) (length earnings)
                  (c_utcnow c)))"

text \<open>
  The body of the \<open>try\<close> block (lines 73-139): \<open>Inr\<close> the response it builds, \<open>Inl\<close> the
  message of the exception that leaves it.
\<close>

definition run_pipeline :: "settings \<Rightarrow> analyze_request \<Rightarrow> collaborators \<Rightarrow> string + analyze_response" where
  "run_pipeline st request c =
     (case holdings_stage c of
        Inl m \<Rightarrow> Inl m
      | Inr holdings \<Rightarrow>
     (case c_analyze_holdings c holdings of
        Inl m \<Rightarrow> Inl m
      | Inr performance \<Rightarrow>
     (let fluctuations = get_fluctuation_alerts (pr_holdings performance);
          all_symbols = map h_symbol holdings;
          fluctuation_symbols = map fa_symbol fluctuations
      in
     (case earnings_stage request c all_symbols of
        Inl m \<Rightarrow> Inl m
      | Inr earnings \<Rightarrow>
     (case news_stage request c fluctuation_symbols of
        Inl m \<Rightarrow> Inl m
      | Inr news \<Rightarrow>
     (case summary_stage st c holdings (pr_holdings performance) fluctuations earnings news of
        Inl m \<Rightarrow> Inl m
      | Inr summary \<Rightarrow>
          Inr \<lparr> ar_summary = Some summary,
                ar_fluctuation_alerts = fluctuations,
                ar_upcoming_earnings = earnings,
                ar_news_items = news,
                ar_holdings_count = length holdings,
                ar_analyzed_at = c_utcnow c,
                ar_status = ''success'',
                ar_error = None \<rparr>))))))"

text \<open>The response of the \<open>except\<close> branch (lines 141-151).\<close>

definition error_response :: "string \<Rightarrow> datetime \<Rightarrow> analyze_response" where
  "error_response m now =
     \<lparr> ar_summary = None, ar_fluctuation_alerts = [], ar_upcoming_earnings = [],
       ar_news_items = [], ar_holdings_count = 0, ar_analyzed_at = now,
       ar_status = ''error'', ar_error = Some m \<rparr>"

text \<open>The two module globals.\<close>

record agent_state =
  latest_analysis :: "analyze_response option"
  analysis_in_progress :: bool

datatype http_exception = HTTPException nat string

text \<open>
  Lines 64-70: the admission check and the setting of the flag. No \<open>await\<close> lies between
  them, so they form one step of the event loop.
\<close>

definition analyze_begin :: "agent_state \<Rightarrow> http_exception + agent_state" where
  "analyze_begin s =
     (if analysis_in_progress s then Inl (HTTPException 409 ''Analysis already in progress'')
      else Inr (s\<lparr>analysis_in_progress := True\<rparr>))"

text \<open>Lines 72-153: the run itself, its \<open>except\<close> branch and its \<open>finally\<close> clause.\<close>

definition analyze_complete ::
  "settings \<Rightarrow> analyze_request \<Rightarrow> collaborators \<Rightarrow> agent_state \<Rightarrow> analyze_response \<times> agent_state" where
  "analyze_complete st request c s =
     (case run_pipeline st request c of
        Inr response \<Rightarrow>
          (response, s\<lparr>latest_analysis := Some response, analysis_in_progress := False\<rparr>)
      | Inl m \<Rightarrow>
          (error_response m (c_utcnow c), s\<lparr>analysis_in_progress := False\<rparr>))"


text \<open>One whole request, from arrival to reply.\<close>

definition analyze_portfolio ::
  "settings \<Rightarrow> analyze_request \<Rightarrow> collaborators \<Rightarrow> agent_state \<Rightarrow>
     (http_exception + analyze_response) \<times> agent_state" where
  "analyze_portfolio st request c s =
     (case analyze_begin s of
        Inl e \<Rightarrow> (Inl e, s)
      | Inr s1 \<Rightarrow> (case analyze_complete st request c s1 of (r, s2) \<Rightarrow> (Inr r, s2)))"

text \<open>The read endpoints.\<close>

definition get_latest_summary :: "agent_state \<Rightarrow> agent_summary option" where
  "get_latest_summary s = (case latest_analysis s of None \<Rightarrow> None | Some a \<Rightarrow> ar_summary a)"

definition get_fluctuations :: "agent_state \<Rightarrow> fluctuation_alert list \<times> nat" where
  "get_fluctuations s =
     (case latest_analysis s of None \<Rightarrow> ([], 0)
      | Some a \<Rightarrow> (ar_fluctuation_alerts a, length (ar_fluctuation_alerts a)))"

definition get_earnings :: "agent_state \<Rightarrow> earnings_event list \<times> nat" where
  "get_earnings s =
     (case latest_analysis s of None \<Rightarrow> ([], 0)
      | Some a \<Rightarrow> (ar_upcoming_earnings a, length (ar_upcoming_earnings a)))"

definition get_news :: "agent_state \<Rightarrow> news_item list \<times> nat" where
  "get_news s =
     (case latest_analysis s of None \<Rightarrow> ([], 0)
      | Some a \<Rightarrow> (ar_news_items a, length (ar_news_items a)))"

definition get_analysis_status :: "agent_state \<Rightarrow> bool \<times> bool \<times> datetime option \<times> nat" where
  "get_analysis_status s =
     (analysis_in_progress s, latest_analysis s \<noteq> None,
      map_option ar_analyzed_at (latest_analysis s),
      (case latest_analysis s of None \<Rightarrow> 0 | Some a \<Rightarrow> ar_holdings_count a))"

section \<open>scheduler/jobs.py: the scheduled run\<close>

text \<open>
  The body of the \<open>try\<close> block of \<open>_run_analysis\<close> (lines 137-194). It reads and writes
  no in-progress flag; earnings are always collected, and the stored response carries a
  summary only when a provider is configured.
\<close>

definition scheduled_pipeline :: "settings \<Rightarrow> collaborators \<Rightarrow> string + analyze_response" where
  "scheduled_pipeline st c =
     (case holdings_stage c of
        Inl m \<Rightarrow> Inl m
      | Inr holdings \<Rightarrow>
     (case c_analyze_holdings c holdings of
        Inl m \<Rightarrow> Inl m
      | Inr performance \<Rightarrow>
     (let fluctuations = get_fluctuation_alerts (pr_holdings performance);
          all_symbols = map h_symbol holdings;
          fluctuation_symbols = map fa_symbol fluctuations
      in
     (case c_get_earnings_for_symbols c all_symbols of
        Inl m \<Rightarrow> Inl m
      | Inr earnings \<Rightarrow>
     (case (if fluctuation_symbols \<noteq> []
            then c_get_news_for_high_fluctuation c fluctuation_symbols else Inr []) of
        Inl m \<Rightarrow> Inl m
      | Inr news \<Rightarrow>
     (case (if is_configured st
            then map_sum id Some
                   (c_generate_summary c (pr_holdings performance) fluctuations earnings news)
            else Inr None) of
        Inl m \<Rightarrow> Inl m
      | Inr summary \<Rightarrow>
          Inr \<lparr> ar_summary = summary,
                ar_fluctuation_alerts = fluctuations,
                ar_upcoming_earnings = earnings,
                ar_news_items = news,
                ar_holdings_count = length holdings,
                ar_analyzed_at = c_utcnow c,
                ar_status = ''success'',
                ar_error = None \<rparr>))))))"

text \<open>
  The effect of a finished scheduled run on the router's globals; \<open>module_loaded\<close> is
  whether \<open>sys.modules\<close> holds the router module under the name the job looks up.
\<close>

definition scheduled_complete :: "settings \<Rightarrow> collaborators \<Rightarrow> bool \<Rightarrow> agent_state \<Rightarrow> agent_state" where
  "scheduled_complete st c module_loaded s =
     (case scheduled_pipeline st c of
        Inr response \<Rightarrow> if module_loaded then s\<lparr>latest_analysis := Some response\<rparr> else s
      | Inl m \<Rightarrow> s)"

section \<open>The process as a transition system\<close>








section \<open>The TTL cache of the collectors\<close>

text \<open>
  Modelled from the spec: the TTL cache (\<open>cachetools.TTLCache\<close>, a library outside the
  repository): a key-value store whose entries expire a fixed duration after insertion.
  Entries are kept oldest first with their expiry time; a key is present while the timer
  is before its expiry; reading a key that is absent or expired raises \<open>KeyError\<close>;
  storing drops the expired entries, replaces an entry of the same key, and evicts from
  the oldest while the cache is full.
\<close>

type_synonym 'v ttl_cache = "(string \<times> 'v \<times> int) list"

definition ttl_get :: "'v ttl_cache \<Rightarrow> int \<Rightarrow> string \<Rightarrow> 'v option" where
  "ttl_get cache timer k =
     (case map_of cache k of
        None \<Rightarrow> None
      | Some (v, expires) \<Rightarrow> if timer < expires then Some v else None)"

definition ttl_contains :: "'v ttl_cache \<Rightarrow> int \<Rightarrow> string \<Rightarrow> bool" where
  "ttl_contains cache timer k = (ttl_get cache timer k \<noteq> None)"

definition ttl_set :: "nat \<Rightarrow> int \<Rightarrow> 'v ttl_cache \<Rightarrow> int \<Rightarrow> string \<Rightarrow> 'v \<Rightarrow> 'v ttl_cache" where
  "ttl_set maxsize ttl cache timer k v =
     (let live = filter (\<lambda>(k', v', expires). timer < expires) cache;
          others = filter (\<lambda>(k', v', expires). k' \<noteq> k) live;
          kept = drop (length others + 1 - maxsize) others
      in kept @ [(k, v, timer + ttl)])"

text \<open>
  The readings of the cache's timer during one call of a collector: at the membership
  test, at the read of a cached entry, and at the store after the lookups.
\<close>

record clock =
  at_contains :: int
  at_getitem :: int
  at_setitem :: int

section \<open>services/earnings\_collector.py\<close>

text \<open>
  What \<open>yf.Ticker(symbol)\<close> gives the collector: the calendar (absent, a dictionary, or a
  data frame with its \<open>empty\<close> flag) with its \<open>Earnings Date\<close> entry, and the \<open>info\<close>
  dictionary; reading either may raise. A date entry is a \<open>datetime\<close>, a value with
  \<open>to_pydatetime\<close>, a value with neither, or a list of those; the flag of a date says
  whether it carries a time zone.
\<close>

datatype py_date = PyDatetime datetime bool | PyTimestamp datetime bool | PyOtherDate

datatype date_entry = OneDate py_date | DateList "py_date list"

datatype calendar = NoCalendar | DictCalendar "date_entry option" | FrameCalendar bool "date_entry option"

record ticker =
  t_calendar :: "py_error + calendar"
  t_info :: "py_error + quote_info"

text \<open>\<open>(earnings_date - now).days\<close>: whole days, rounded towards minus infinity.\<close>

definition days_between :: "datetime \<Rightarrow> datetime \<Rightarrow> int" where
  "days_between earnings_date now = (earnings_date - now) div 86400"

text \<open>
  Lines 119-146: the 30-day window, the name, the event. Subtracting the naive \<open>now\<close> from
  a date with a time zone raises.
\<close>

definition finish_earnings ::
  "datetime \<Rightarrow> ticker \<Rightarrow> string \<Rightarrow> datetime \<Rightarrow> bool \<Rightarrow> earnings_event option" where
  "finish_earnings now tk symbol earnings_date aware =
     (if aware then None
      else
        (let days_until = days_between earnings_date now in
         if days_until < 0 \<or> days_until > 30 then None
         else
           (case t_info tk of
              Inl e \<Rightarrow> None
            | Inr info \<Rightarrow>
                (case shortName info of
                   Null \<Rightarrow> None
                 | Absent \<Rightarrow>
                     Some \<lparr> ee_symbol = symbol, ee_name = symbol, ee_earnings_date = earnings_date,
                            ee_time_of_day = None, ee_eps_estimate = None,
                            ee_revenue_estimate = None, ee_days_until = days_until \<rparr>
                 | Name nm \<Rightarrow>
                     Some \<lparr> ee_symbol = symbol, ee_name = nm, ee_earnings_date = earnings_date,
                            ee_time_of_day = None, ee_eps_estimate = None,
                            ee_revenue_estimate = None, ee_days_until = days_until \<rparr>))))"

text \<open>
  \<open>_get_earnings_for_symbol\<close>. Reading \<open>calendar.empty\<close> of a dictionary raises, and every
  exception gives \<open>None\<close>. \<open>fromtimestamp\<close> is \<open>datetime.fromtimestamp\<close> of the platform: a
  naive \<open>datetime\<close>, or the exception it raises.
\<close>

definition get_earnings_for_symbol ::
  "(int \<Rightarrow> py_error + datetime) \<Rightarrow> datetime \<Rightarrow> ticker \<Rightarrow> string \<Rightarrow> earnings_event option" where
  "get_earnings_for_symbol fromtimestamp now tk symbol =
     (case t_calendar tk of
        Inl e \<Rightarrow> None
      | Inr NoCalendar \<Rightarrow> None
      | Inr (DictCalendar d) \<Rightarrow> None
      | Inr (FrameCalendar is_empty d) \<Rightarrow>
          if is_empty then None
          else
            (case (case d of
                     Some x \<Rightarrow> Inr (Some x)
                   | None \<Rightarrow>
                       (case t_info tk of
                          Inl e \<Rightarrow> Inl e
                        | Inr info \<Rightarrow>
                            (case earningsTimestamp info of
                               None \<Rightarrow> Inr None
                             | Some ts \<Rightarrow>
                                 if ts \<noteq> 0
                                 then map_sum id (\<lambda>t. Some (OneDate (PyDatetime t False)))
                                        (fromtimestamp ts)
                                 else Inr None))) of
               Inl e \<Rightarrow> None
             | Inr None \<Rightarrow> None
             | Inr (Some entry) \<Rightarrow>
                 (case (case entry of
                          OneDate x \<Rightarrow> Some x
                        | DateList [] \<Rightarrow> None
                        | DateList (x # xs) \<Rightarrow> Some x) of
                    None \<Rightarrow> None
                  | Some PyOtherDate \<Rightarrow> None
                  | Some (PyTimestamp t aware) \<Rightarrow> finish_earnings now tk symbol t aware
                  | Some (PyDatetime t aware) \<Rightarrow> finish_earnings now tk symbol t aware)))"

text \<open>
  The collector: its cache, and the symbols it has looked up at the provider so far (one
  entry per call of \<open>_get_earnings_for_symbol\<close>).
\<close>

record earnings_collector =
  e_cache :: "earnings_event list ttl_cache"
  e_lookups :: "string list"

definition new_earnings_collector :: earnings_collector where
  "new_earnings_collector = \<lparr> e_cache = [], e_lookups = [] \<rparr>"

definition earnings_cache_key :: "string list \<Rightarrow> string" where
  "earnings_cache_key symbols = join '','' (sort symbols)"

text \<open>
  Lines 48-63 of \<open>get_earnings_for_symbols\<close>: one lookup per symbol, all awaited, the
  events kept and sorted by date. \<open>now\<close> is \<open>datetime.now()\<close> in the lookups (one reading
  stands for those of all lookups of a call), \<open>yf\<close> is what the provider answers for a
  symbol.
\<close>

definition fetch_earnings ::
  "(int \<Rightarrow> py_error + datetime) \<Rightarrow> (string \<Rightarrow> ticker) \<Rightarrow> datetime \<Rightarrow> string list
     \<Rightarrow> earnings_event list" where
  "fetch_earnings fromtimestamp yf now symbols =
     (let results = map (\<lambda>symbol. get_earnings_for_symbol fromtimestamp now (yf symbol) symbol)
                      symbols
      in sort_key ee_earnings_date (List.map_filter id results))"

text \<open>\<open>get_earnings_for_symbols\<close>; \<open>ck\<close> holds the readings of the cache's timer.\<close>

definition get_earnings_for_symbols ::
  "settings \<Rightarrow> (int \<Rightarrow> py_error + datetime) \<Rightarrow> (string \<Rightarrow> ticker) \<Rightarrow> clock \<Rightarrow> datetime \<Rightarrow> string list
     \<Rightarrow> earnings_collector \<Rightarrow> (py_error + earnings_event list) \<times> earnings_collector" where
  "get_earnings_for_symbols st fromtimestamp yf ck now symbols coll =
     (let cache_key = earnings_cache_key symbols in
      if ttl_contains (e_cache coll) (at_contains ck) cache_key then
        (case ttl_get (e_cache coll) (at_getitem ck) cache_key of
           Some cached \<Rightarrow> (Inr cached, coll)
         | None \<Rightarrow> (Inl KeyError, coll))
      else
        (let earnings = fetch_earnings fromtimestamp yf now symbols
         in (Inr earnings,
             \<lparr> e_cache = ttl_set 100 (earnings_cache_hours st * 3600) (e_cache coll)
                           (at_setitem ck) cache_key earnings,
               e_lookups = e_lookups coll @ symbols \<rparr>)))"

definition earnings_clear_cache :: "earnings_collector \<Rightarrow> earnings_collector" where
  "earnings_clear_cache coll = coll\<lparr>e_cache := []\<rparr>"

text \<open>
  \<open>scrape_nasdaq_earnings\<close>. \<open>page\<close> is the outcome of fetching and parsing the page:
  an exception, no earnings table, or the table's rows as the texts of their cells, the
  header row first. \<open>strptime\<close> is the parse of a date cell (\<open>None\<close> for \<open>ValueError\<close>).
\<close>

fun scrape_rows ::
  "(string \<Rightarrow> datetime option) \<Rightarrow> datetime \<Rightarrow> string list \<Rightarrow> string list list \<Rightarrow> earnings_event list" where
  "scrape_rows strptime now symbols_set [] = []"
| "scrape_rows strptime now symbols_set (cols # rows) =
     (if length cols < 3 then scrape_rows strptime now symbols_set rows
      else
        (let symbol = upper (cols ! 0) in
         if symbol \<notin> set symbols_set then scrape_rows strptime now symbols_set rows
         else
           (case strptime (cols ! 1) of
              None \<Rightarrow> scrape_rows strptime now symbols_set rows
            | Some earnings_date \<Rightarrow>
                \<lparr> ee_symbol = symbol, ee_name = cols ! 2, ee_earnings_date = earnings_date,
                  ee_time_of_day = None, ee_eps_estimate = None, ee_revenue_estimate = None,
                  ee_days_until = days_between earnings_date now \<rparr>
                # scrape_rows strptime now symbols_set rows)))"

definition scrape_nasdaq_earnings ::
  "(string \<Rightarrow> datetime option) \<Rightarrow> datetime \<Rightarrow> py_error + string list list option \<Rightarrow> string list
     \<Rightarrow> earnings_event list" where
  "scrape_nasdaq_earnings strptime now page symbols =
     (case page of
        Inl e \<Rightarrow> []
      | Inr None \<Rightarrow> []
      | Inr (Some trs) \<Rightarrow> scrape_rows strptime now (map upper symbols) (drop 1 trs))"

section \<open>services/news\_collector.py\<close>

text \<open>
  One item of \<open>ticker.news\<close>: the keys the collector reads. The text keys are read with a
  default; \<open>rn_thumbnail\<close> is the outcome of reading the \<open>url\<close> of the first resolution of
  the thumbnail: the value, \<open>None\<close> when there is none, or the exception raised.
\<close>

record raw_news =
  rn_providerPublishTime :: "int option"
  rn_title :: name_field
  rn_publisher :: name_field
  rn_link :: name_field
  rn_thumbnail :: "py_error + string option"

definition datetime_min :: datetime where
  "datetime_min = - 62135596800"

definition field_or :: "string \<Rightarrow> name_field \<Rightarrow> py_error + string" where
  "field_or dflt f = (case f of Absent \<Rightarrow> Inr dflt | Null \<Rightarrow> Inl ValidationError | Name x \<Rightarrow> Inr x)"

text \<open>
  Lines 96-103: the publish time. Only \<open>ValueError\<close> and \<open>OSError\<close> of
  \<open>datetime.fromtimestamp\<close> are caught here; any other exception leaves the loop.
\<close>

definition publish_time :: "(int \<Rightarrow> py_error + datetime) \<Rightarrow> raw_news \<Rightarrow> py_error + datetime option" where
  "publish_time fromtimestamp item =
     (case rn_providerPublishTime item of
        None \<Rightarrow> Inr None
      | Some t \<Rightarrow>
          if t \<noteq> 0 then
            (case fromtimestamp t of
               Inr d \<Rightarrow> Inr (Some d)
             | Inl ValueError \<Rightarrow> Inr None
             | Inl OSError \<Rightarrow> Inr None
             | Inl e \<Rightarrow> Inl e)
          else Inr None)"

definition build_news_item ::
  "(int \<Rightarrow> py_error + datetime) \<Rightarrow> string \<Rightarrow> raw_news \<Rightarrow> py_error + news_item" where
  "build_news_item fromtimestamp symbol item =
     (case publish_time fromtimestamp item of
        Inl e \<Rightarrow> Inl e
      | Inr published_at \<Rightarrow>
     (case rn_thumbnail item of
        Inl e \<Rightarrow> Inl e
      | Inr thumbnail_url \<Rightarrow>
     (case field_or [] (rn_title item) of
        Inl e \<Rightarrow> Inl e
      | Inr title \<Rightarrow>
     (case field_or ''Unknown'' (rn_publisher item) of
        Inl e \<Rightarrow> Inl e
      | Inr publisher \<Rightarrow>
     (case field_or [] (rn_link item) of
        Inl e \<Rightarrow> Inl e
      | Inr link \<Rightarrow>
          Inr \<lparr> ni_symbol = symbol, ni_title = title, ni_publisher = publisher,
                ni_link = link, ni_published_at = published_at, ni_summary = None,
                ni_thumbnail_url = thumbnail_url \<rparr>)))))"

fun build_news ::
  "(int \<Rightarrow> py_error + datetime) \<Rightarrow> string \<Rightarrow> raw_news list \<Rightarrow> py_error + news_item list" where
  "build_news fromtimestamp symbol [] = Inr []"
| "build_news fromtimestamp symbol (item # items) =
     (case build_news_item fromtimestamp symbol item of
        Inl e \<Rightarrow> Inl e
      | Inr n \<Rightarrow>
          (case build_news fromtimestamp symbol items of
             Inl e \<Rightarrow> Inl e
           | Inr ns \<Rightarrow> Inr (n # ns)))"

text \<open>The slice \<open>xs[:n]\<close>; a negative \<open>n\<close> counts from the end.\<close>

definition py_take :: "int \<Rightarrow> 'a list \<Rightarrow> 'a list" where
  "py_take n xs = (if 0 \<le> n then take (nat n) xs else take (length xs - nat (- n)) xs)"

text \<open>\<open>_get_news_for_symbol\<close>: any exception gives the empty list for the symbol.\<close>

definition get_news_for_symbol ::
  "(int \<Rightarrow> py_error + datetime) \<Rightarrow> (string \<Rightarrow> py_error + raw_news list) \<Rightarrow> string \<Rightarrow> int
     \<Rightarrow> news_item list" where
  "get_news_for_symbol fromtimestamp yf_news symbol max_items =
     (case yf_news symbol of
        Inl e \<Rightarrow> []
      | Inr news \<Rightarrow>
          if news = [] then []
          else (case build_news fromtimestamp symbol (py_take max_items news) of
                  Inl e \<Rightarrow> []
                | Inr items \<Rightarrow> items))"

record news_collector =
  n_cache :: "news_item list ttl_cache"
  n_lookups :: "string list"

definition new_news_collector :: news_collector where
  "new_news_collector = \<lparr> n_cache = [], n_lookups = [] \<rparr>"

definition news_cache_key :: "string list \<Rightarrow> int \<Rightarrow> string" where
  "news_cache_key symbols max_per_symbol = join '','' (sort symbols) @ '':'' @ show_int max_per_symbol"

text \<open>
  Lines 46-69 of \<open>get_news_for_symbols\<close>: one lookup per symbol, all awaited, the lists
  joined and sorted by publish time, newest first, an item without one last.
\<close>

definition fetch_news ::
  "(int \<Rightarrow> py_error + datetime) \<Rightarrow> (string \<Rightarrow> py_error + raw_news list) \<Rightarrow> string list \<Rightarrow> int
     \<Rightarrow> news_item list" where
  "fetch_news fromtimestamp yf_news symbols max_per_symbol =
     (let results = map (\<lambda>symbol. get_news_for_symbol fromtimestamp yf_news symbol max_per_symbol)
                      symbols
      in sort_reverse (\<lambda>x. case ni_published_at x of None \<Rightarrow> datetime_min | Some t \<Rightarrow> t)
           (concat results))"

definition get_news_for_symbols ::
  "settings \<Rightarrow> (int \<Rightarrow> py_error + datetime) \<Rightarrow> (string \<Rightarrow> py_error + raw_news list) \<Rightarrow> clock
     \<Rightarrow> string list \<Rightarrow> int \<Rightarrow> news_collector \<Rightarrow> (py_error + news_item list) \<times> news_collector" where
  "get_news_for_symbols st fromtimestamp yf_news ck symbols max_per_symbol coll =
     (let cache_key = news_cache_key symbols max_per_symbol in
      if ttl_contains (n_cache coll) (at_contains ck) cache_key then
        (case ttl_get (n_cache coll) (at_getitem ck) cache_key of
           Some cached \<Rightarrow> (Inr cached, coll)
         | None \<Rightarrow> (Inl KeyError, coll))
      else
        (let all_news = fetch_news fromtimestamp yf_news symbols max_per_symbol
         in (Inr all_news,
             \<lparr> n_cache = ttl_set 100 (news_cache_minutes st * 60) (n_cache coll)
                           (at_setitem ck) cache_key all_news,
               n_lookups = n_lookups coll @ symbols \<rparr>)))"

text \<open>\<open>get_news_for_high_fluctuation\<close>: the same with at most 3 items per symbol.\<close>

definition get_news_for_high_fluctuation ::
  "settings \<Rightarrow> (int \<Rightarrow> py_error + datetime) \<Rightarrow> (string \<Rightarrow> py_error + raw_news list) \<Rightarrow> clock
     \<Rightarrow> string list \<Rightarrow> news_collector \<Rightarrow> (py_error + news_item list) \<times> news_collector" where
  "get_news_for_high_fluctuation st fromtimestamp yf_news ck symbols coll =
     get_news_for_symbols st fromtimestamp yf_news ck symbols 3 coll"

definition news_clear_cache :: "news_collector \<Rightarrow> news_collector" where
  "news_clear_cache coll = coll\<lparr>n_cache := []\<rparr>"

section \<open>services/holdings\_fetcher.py\<close>

text \<open>
  The decoded JSON payload. A number is an exact real (no overflow, infinity or NaN); an
  object is the list of its members, and a key written twice holds its last value;
  \<open>get\<close> is \<open>dict.get\<close>, which answers \<open>None\<close> for an absent key.
\<close>

datatype json = JNull | JBool bool | JNum real | JStr string | JArr "json list"
  | JObj "(string \<times> json) list"

definition get :: "(string \<times> json) list \<Rightarrow> string \<Rightarrow> json" where
  "get d k = (case map_of (rev d) k of None \<Rightarrow> JNull | Some v \<Rightarrow> v)"

definition has_key :: "(string \<times> json) list \<Rightarrow> string \<Rightarrow> bool" where
  "has_key d k = (k \<in> set (map fst d))"

fun truthy_json :: "json \<Rightarrow> bool" where
  "truthy_json JNull = False"
| "truthy_json (JBool b) = b"
| "truthy_json (JNum r) = (r \<noteq> 0)"
| "truthy_json (JStr x) = (x \<noteq> [])"
| "truthy_json (JArr xs) = (xs \<noteq> [])"
| "truthy_json (JObj d) = (d \<noteq> [])"

text \<open>\<open>a or b or ... or z\<close>: the first truthy operand, the last operand when none is.\<close>

fun or_chain :: "json list \<Rightarrow> json" where
  "or_chain [] = JNull"
| "or_chain [x] = x"
| "or_chain (x # y # ys) = (if truthy_json x then x else or_chain (y # ys))"

text \<open>
  \<open>float(v)\<close>; \<open>parse_float\<close> is Python's reading of a string as a float (\<open>None\<close> where it
  raises \<open>ValueError\<close>).
\<close>

definition py_float :: "(string \<Rightarrow> real option) \<Rightarrow> json \<Rightarrow> py_error + real" where
  "py_float parse_float v =
     (case v of
        JNum r \<Rightarrow> Inr r
      | JBool b \<Rightarrow> Inr (if b then 1 else 0)
      | JStr x \<Rightarrow> (case parse_float x of None \<Rightarrow> Inl ValueError | Some r \<Rightarrow> Inr r)
      | _ \<Rightarrow> Inl TypeError)"

text \<open>
  \<open>if v: v = float(v)\<close>: a truthy value is converted, a falsy one is kept as it is.
\<close>

definition float_if_truthy :: "(string \<Rightarrow> real option) \<Rightarrow> json \<Rightarrow> py_error + json" where
  "float_if_truthy parse_float v =
     (if truthy_json v then map_sum id JNum (py_float parse_float v) else Inr v)"

text \<open>
  What the \<open>Holding\<close> model accepts for an optional float and for an optional string
  field: \<open>None\<close> for a refused value.
\<close>

definition validate_optional_float :: "(string \<Rightarrow> real option) \<Rightarrow> json \<Rightarrow> real option option" where
  "validate_optional_float parse_float v =
     (case v of
        JNull \<Rightarrow> Some None
      | JNum r \<Rightarrow> Some (Some r)
      | JBool b \<Rightarrow> Some (Some (if b then 1 else 0))
      | JStr x \<Rightarrow> map_option Some (parse_float x)
      | _ \<Rightarrow> None)"

definition validate_optional_str :: "json \<Rightarrow> string option option" where
  "validate_optional_str v =
     (case v of JNull \<Rightarrow> Some None | JStr x \<Rightarrow> Some (Some x) | _ \<Rightarrow> None)"

text \<open>
  The call \<open>Holding(symbol=symbol.upper(), ...)\<close> of lines 160-168: \<open>upper\<close> is read first
  (only a string has it), then the model checks the fields.
\<close>

definition make_holding ::
  "(string \<Rightarrow> real option) \<Rightarrow> json \<Rightarrow> json \<Rightarrow> real \<Rightarrow> json \<Rightarrow> json \<Rightarrow> json \<Rightarrow> json \<Rightarrow> py_error + holding" where
  "make_holding parse_float symbol name shares average_cost current_price market_value sector =
     (case symbol of
        JStr sy \<Rightarrow>
          (case (name, validate_optional_float parse_float average_cost,
                 validate_optional_float parse_float current_price,
                 validate_optional_float parse_float market_value,
                 validate_optional_str sector) of
             (JStr nm, Some ac, Some cp, Some mv, Some se) \<Rightarrow>
               Inr \<lparr> h_symbol = upper sy, h_name = nm, h_shares = shares,
                     h_average_cost = ac, h_current_price = cp, h_market_value = mv,
                     h_sector = se \<rparr>
           | _ \<Rightarrow> Inl ValidationError)
      | _ \<Rightarrow> Inl AttributeError)"

text \<open>
  \<open>_parse_single_holding\<close>: \<open>Inr None\<close> for an item that is skipped, \<open>Inl\<close> for an exception,
  which leaves \<open>_parse_holdings\<close> as well.
\<close>

definition parse_single_holding :: "(string \<Rightarrow> real option) \<Rightarrow> json \<Rightarrow> py_error + holding option" where
  "parse_single_holding parse_float item =
     (case item of
        JObj d \<Rightarrow>
          (let symbol = or_chain [get d ''symbol'', get d ''ticker'', get d ''Symbol'', get d ''Ticker''] in
           if \<not> truthy_json symbol then Inr None
           else
             (let name = or_chain [get d ''name'', get d ''company'', get d ''Name'',
                                   get d ''companyName'', JStr []] in
              case py_float parse_float
                     (or_chain [get d ''shares'', get d ''quantity'', get d ''open_quantity'',
                                get d ''Shares'', get d ''Quantity'', JNum 0]) of
                Inl e \<Rightarrow> Inl e
              | Inr shares \<Rightarrow>
             (case float_if_truthy parse_float
                     (or_chain [get d ''average_cost'', get d ''averageCost'',
                                get d ''average_entry_price'', get d ''cost_basis'']) of
                Inl e \<Rightarrow> Inl e
              | Inr average_cost \<Rightarrow>
             (case float_if_truthy parse_float
                     (or_chain [get d ''current_price'', get d ''currentPrice'', get d ''price'']) of
                Inl e \<Rightarrow> Inl e
              | Inr current_price \<Rightarrow>
             (case (let mv = or_chain [get d ''market_value'', get d ''marketValue'',
                                       get d ''current_market_value'', get d ''value''] in
                    if truthy_json mv then map_sum id JNum (py_float parse_float mv)
                    else (case current_price of
                            JNum cp \<Rightarrow> if cp \<noteq> 0 \<and> shares \<noteq> 0 then Inr (JNum (cp * shares))
                                        else Inr mv
                          | _ \<Rightarrow> Inr mv)) of
                Inl e \<Rightarrow> Inl e
              | Inr market_value \<Rightarrow>
                  map_sum id Some
                    (make_holding parse_float symbol name shares average_cost current_price
                       market_value (or_chain [get d ''sector'', get d ''Sector''])))))))
      | _ \<Rightarrow> Inr None)"

text \<open>The loop of \<open>_parse_holdings\<close> (lines 88-94).\<close>

fun parse_items :: "(string \<Rightarrow> real option) \<Rightarrow> json list \<Rightarrow> py_error + holding list" where
  "parse_items parse_float [] = Inr []"
| "parse_items parse_float (item # items) =
     (case parse_single_holding parse_float item of
        Inl e \<Rightarrow> Inl e
      | Inr r \<Rightarrow>
          (case parse_items parse_float items of
             Inl e \<Rightarrow> Inl e
           | Inr hs \<Rightarrow> Inr (case r of None \<Rightarrow> hs | Some h \<Rightarrow> h # hs)))"

text \<open>
  \<open>for item in holdings_data\<close>: a list gives its elements, a dictionary its keys, a string
  its characters; nothing else can be iterated.
\<close>

definition py_iter :: "json \<Rightarrow> py_error + json list" where
  "py_iter v =
     (case v of
        JArr xs \<Rightarrow> Inr xs
      | JObj d \<Rightarrow> Inr (map JStr (remdups (map fst d)))
      | JStr x \<Rightarrow> Inr (map (\<lambda>ch. JStr [ch]) x)
      | _ \<Rightarrow> Inl TypeError)"

text \<open>Lines 71-86: which part of the payload holds the holdings.\<close>

definition holdings_data :: "json \<Rightarrow> json" where
  "holdings_data data =
     (case data of
        JArr xs \<Rightarrow> JArr xs
      | JObj d \<Rightarrow>
          if has_key d ''portfolio_holdings'' then get d ''portfolio_holdings''
          else if has_key d ''holdings'' then get d ''holdings''
          else if has_key d ''data'' then get d ''data''
          else if has_key d ''positions'' then get d ''positions''
          else JArr [JObj d]
      | _ \<Rightarrow> JArr [])"

definition parse_holdings :: "(string \<Rightarrow> real option) \<Rightarrow> json \<Rightarrow> py_error + holding list" where
  "parse_holdings parse_float data =
     (case py_iter (holdings_data data) of
        Inl e \<Rightarrow> Inl e
      | Inr items \<Rightarrow> parse_items parse_float items)"

section \<open>scheduler/jobs.py and routers/scheduler.py\<close>

text \<open>
  \<open>str.split()\<close>: the maximal runs of non-whitespace characters. The whitespace below 256
  is 9 to 13, 28 to 32, 133 and 160.
\<close>

definition is_space :: "char \<Rightarrow> bool" where
  "is_space c =
     (let n = of_char c :: nat in
      (9 \<le> n \<and> n \<le> 13) \<or> (28 \<le> n \<and> n \<le> 32) \<or> n = 133 \<or> n = 160)"

fun split_from :: "string \<Rightarrow> string \<Rightarrow> string list" where
  "split_from w [] = (if w = [] then [] else [w])"
| "split_from w (c # cs) =
     (if is_space c then (if w = [] then split_from [] cs else w # split_from [] cs)
      else split_from (w @ [c]) cs)"

definition split :: "string \<Rightarrow> string list" where
  "split x = split_from [] x"

text \<open>
  The scheduler object: stopped, or running with the job \<open>portfolio_analysis\<close> under its
  trigger (only \<open>start\<close> sets the scheduler running, and it adds the job first). Triggers
  are built by the scheduling library; \<open>cron_trigger\<close> is its constructor, which answers
  a trigger or raises with a message.
\<close>

datatype 'tr analysis_scheduler = Stopped | Running 'tr

definition is_running :: "'tr analysis_scheduler \<Rightarrow> bool" where
  "is_running s = (case s of Stopped \<Rightarrow> False | Running trigger \<Rightarrow> True)"

text \<open>\<open>update_schedule\<close>: \<open>Inl\<close> the message of the \<open>ValueError\<close> it raises.\<close>

definition update_schedule ::
  "(string \<Rightarrow> string \<Rightarrow> string \<Rightarrow> string \<Rightarrow> string \<Rightarrow> string + 'tr) \<Rightarrow> string \<Rightarrow> 'tr analysis_scheduler
     \<Rightarrow> string + 'tr analysis_scheduler" where
  "update_schedule cron_trigger cron_expression s =
     (let cron_parts = split cron_expression in
      if length cron_parts < 5 then Inl ''Cron expression must have at least 5 parts''
      else
        (case cron_trigger (cron_parts ! 0) (cron_parts ! 1) (cron_parts ! 2) (cron_parts ! 3)
                (cron_parts ! 4) of
           Inl e \<Rightarrow> Inl (''Invalid cron expression: '' @ e)
         | Inr trigger \<Rightarrow> if is_running s then Inr (Running trigger) else Inr s))"

text \<open>
  \<open>update_cron\<close>: the reply (the HTTP error 400 or the \<open>updated\<close> message) and the
  scheduler afterwards.
\<close>

definition update_cron ::
  "(string \<Rightarrow> string \<Rightarrow> string \<Rightarrow> string \<Rightarrow> string \<Rightarrow> string + 'tr) \<Rightarrow> string \<Rightarrow> 'tr analysis_scheduler
     \<Rightarrow> (http_exception + string) \<times> 'tr analysis_scheduler" where
  "update_cron cron_trigger cron_expression s =
     (case update_schedule cron_trigger cron_expression s of
        Inr s' \<Rightarrow> (Inr (''Cron expression updated to: '' @ cron_expression), s')
      | Inl m \<Rightarrow> (Inl (HTTPException 400 (''Invalid cron expression: '' @ m)), s))"

text \<open>
  \<open>start\<close>: a no-op on a running scheduler; otherwise the job is added with the trigger
  of the configured expression (or the default one) and the scheduler is started.
\<close>

definition start ::
  "(string \<Rightarrow> string \<Rightarrow> string \<Rightarrow> string \<Rightarrow> string \<Rightarrow> string + 'tr) \<Rightarrow> 'tr \<Rightarrow> string \<Rightarrow> 'tr analysis_scheduler
     \<Rightarrow> string + 'tr analysis_scheduler" where
  "start cron_trigger default_trigger scheduler_cron s =
     (if is_running s then Inr s
      else
        (let cron_parts = split scheduler_cron in
         case (if length cron_parts \<ge> 5
               then cron_trigger (cron_parts ! 0) (cron_parts ! 1) (cron_parts ! 2)
                      (cron_parts ! 3) (cron_parts ! 4)
               else Inr default_trigger) of
           Inl e \<Rightarrow> Inl e
         | Inr trigger \<Rightarrow> Inr (Running trigger)))"

section \<open>Concrete inputs\<close>

definition sample_holding :: holding where
  "sample_holding = \<lparr> h_symbol = ''AAPL'', h_name = ''Apple Inc.'', h_shares = 100,
     h_average_cost = Some 150, h_current_price = None, h_market_value = None,
     h_sector = None \<rparr>"

definition empty_info :: quote_info where
  "empty_info = \<lparr> currentPrice = None, regularMarketPrice = None, previousClose = None,
     regularMarketPreviousClose = None, dayHigh = None, dayLow = None, volume = None,
     shortName = Absent, earningsTimestamp = None \<rparr>"

text \<open>The defaults of config.py.\<close>

definition default_settings :: settings where
  "default_settings = \<lparr> llm_provider = ''anthropic'', llm_model = ''claude-3-sonnet-20240229'',
     openai_api_key = [], anthropic_api_key = [], local_llm_url = ''http://localhost:11434'',
     fluctuation_threshold = 5, earnings_cache_hours = 4, news_cache_minutes = 30 \<rparr>"

definition up_info :: quote_info where
  "up_info = empty_info\<lparr> currentPrice := Some 110, previousClose := Some 100 \<rparr>"

definition zero_price_info :: quote_info where
  "zero_price_info = empty_info\<lparr> regularMarketPrice := Some 0, previousClose := Some 100 \<rparr>"

definition zero_close_info :: quote_info where
  "zero_close_info = empty_info\<lparr> currentPrice := Some 110, previousClose := Some 0,
     regularMarketPreviousClose := Some 0 \<rparr>"

text \<open>
  Collaborators of a run: the holdings endpoint is unreachable (so the mock portfolio is
  used), every quote is \<open>up_info\<close>, no earnings, no news; and the same with an earnings
  collector that raises.
\<close>

definition default_request :: analyze_request where
  "default_request = \<lparr> force_refresh = False, include_news = True, include_earnings = True \<rparr>"

definition sample_collaborators :: collaborators where
  "sample_collaborators =
     \<lparr> c_fetch_holdings = HTTPError,
       c_analyze_holdings = (\<lambda>hs. Inr (analyze_holdings 5 (\<lambda>s. Inr up_info) 0 hs)),
       c_get_earnings_for_symbols = (\<lambda>symbols. Inr []),
       c_get_news_for_high_fluctuation = (\<lambda>symbols. Inr []),
       c_generate_summary = (\<lambda>hs fs es ns. Inl ''provider unreachable''),
       c_utcnow = 0 \<rparr>"

definition failing_collaborators :: collaborators where
  "failing_collaborators =
     sample_collaborators\<lparr> c_get_earnings_for_symbols := (\<lambda>symbols. Inl ''calendar unavailable'') \<rparr>"

definition idle_state :: agent_state where
  "idle_state = \<lparr> latest_analysis = None, analysis_in_progress = False \<rparr>"

text \<open>
  A page of the backup source read on 2026-11-04: a header row, an event in 40 days and
  an event 5 days ago; \<open>sample_strptime\<close> reads the two dates of the page.
\<close>

definition sample_now :: datetime where
  "sample_now = 1793750400"

definition sample_strptime :: "string \<Rightarrow> datetime option" where
  "sample_strptime x =
     (if x = ''12/14/2026'' then Some 1797206400
      else if x = ''10/30/2026'' then Some 1793318400
      else None)"

definition sample_page :: "py_error + string list list option" where
  "sample_page = Inr (Some ([''Symbol'', ''Date'', ''Company''] #
                            [ [''AAPL'', ''12/14/2026'', ''Apple Inc.''],
                            [''MSFT'', ''10/30/2026'', ''Microsoft Corporation'']]))"

text \<open>A provider with an earnings date on 2026-11-20 for every symbol, and without news.\<close>

definition sample_ticker :: ticker where
  "sample_ticker = \<lparr> t_calendar = Inr (FrameCalendar False (Some (OneDate (PyDatetime 1795132800 False)))),
                      t_info = Inr empty_info \<rparr>"

definition no_news :: "string \<Rightarrow> py_error + raw_news list" where
  "no_news symbol = Inr []"

text \<open>
  Quotes that report a 0 under the first key and a price under the fallback key: a
  previous close of 0 with a regular-market previous close of 95, and a current price of
  0 with a regular-market price of 50.
\<close>

definition fallback_close_info :: quote_info where
  "fallback_close_info = empty_info\<lparr> currentPrice := Some 100, previousClose := Some 0,
     regularMarketPreviousClose := Some 95 \<rparr>"

definition fallback_price_info :: quote_info where
  "fallback_price_info = empty_info\<lparr> currentPrice := Some 0, regularMarketPrice := Some 50,
     previousClose := Some 40 \<rparr>"

text \<open>
  A trigger constructor for the examples: a trigger is its five fields, and a field
  \<open>bad\<close> is refused.
\<close>

definition sample_trigger ::
  "string \<Rightarrow> string \<Rightarrow> string \<Rightarrow> string \<Rightarrow> string \<Rightarrow> string + (string \<times> string \<times> string \<times> string \<times> string)" where
  "sample_trigger mi ho da mo dw =
     (if ''bad'' \<in> set [mi, ho, da, mo, dw] then Inl ''Unrecognized expression''
      else Inr (mi, ho, da, mo, dw))"

text \<open>A payload item, and a collector clock for a call at one instant.\<close>

definition sample_item :: json where
  "sample_item = JObj [(''ticker'', JStr ''aapl''), (''quantity'', JNum 10), (''price'', JNum 2)]"

definition at_instant :: "int \<Rightarrow> clock" where
  "at_instant t = \<lparr> at_contains = t, at_getitem = t, at_setitem = t \<rparr>"

definition naive_fromtimestamp :: "int \<Rightarrow> py_error + datetime" where
  "naive_fromtimestamp t = Inr t"

section \<open>Properties of the Performance Evaluator\<close>

lemma compute_change_cases:
  "compute_change th cur prev =
     (if truthy cur \<and> truthy prev
      then Inr (Some (the cur - the prev), Some ((the cur - the prev) / the prev * 100),
                \<bar>(the cur - the prev) / the prev * 100\<bar> \<ge> th)
      else Inr (None, None, False))"
  by (auto simp: compute_change_def truthy_def py_truediv_def Let_def split: option.splits)

lemma get_stock_performance_fields:
  "hp_change_percent (get_stock_performance th lookup h) =
     (case (hp_current_price (get_stock_performance th lookup h),
            hp_previous_close (get_stock_performance th lookup h)) of
        (Some c, Some p) \<Rightarrow> if c \<noteq> 0 \<and> p \<noteq> 0 then Some ((c - p) / p * 100) else None
      | _ \<Rightarrow> None)
   \<and> hp_change_amount (get_stock_performance th lookup h) =
     (case (hp_current_price (get_stock_performance th lookup h),
            hp_previous_close (get_stock_performance th lookup h)) of
        (Some c, Some p) \<Rightarrow> if c \<noteq> 0 \<and> p \<noteq> 0 then Some (c - p) else None
      | _ \<Rightarrow> None)
   \<and> hp_is_high_fluctuation (get_stock_performance th lookup h) =
     (case hp_change_percent (get_stock_performance th lookup h) of
        Some cp \<Rightarrow> \<bar>cp\<bar> \<ge> th | None \<Rightarrow> False)"
  by (auto simp: get_stock_performance_def degraded_def compute_change_cases truthy_def Let_def
           split: sum.splits option.splits)

lemma fetch_quote_change_cases:
  "fetch_quote_change info =
     (let c = py_or (currentPrice info) (regularMarketPrice info); p = previousClose info in
      Inr (c, p, if truthy c \<and> truthy p then Some ((the c - the p) / the p * 100) else None))"
  by (auto simp: fetch_quote_change_def truthy_def py_truediv_def Let_def split: option.splits)

lemma evaluator_flag_has_change:
  assumes "p \<in> set (pr_holdings (analyze_holdings threshold yf now holdings))"
    and "hp_is_high_fluctuation p"
  shows "hp_change_percent p \<noteq> None"
proof -
  from assms(1) obtain h where "p = get_stock_performance threshold (yf (h_symbol h)) h"
    by (auto simp: analyze_holdings_def Let_def)
  with assms(2) get_stock_performance_fields [of threshold "yf (h_symbol h)" h]
  show ?thesis by (auto split: option.splits)
qed

lemma to_alert_change_percent: "fa_change_percent (to_alert p cp) = cp"
  by (simp add: to_alert_def)

lemma collect_alerts_flagged:
  assumes "\<forall>p \<in> set ps. hp_is_high_fluctuation p \<longrightarrow> hp_change_percent p \<noteq> None"
  shows "list_all2 (\<lambda>p a. hp_change_percent p = Some (fa_change_percent a)
                          \<and> a = to_alert p (fa_change_percent a))
           (filter hp_is_high_fluctuation ps) (collect_alerts ps)"
  using assms
proof (induction ps)
  case Nil
  then show ?case by simp
next
  case (Cons p ps)
  then have ih: "list_all2 (\<lambda>p a. hp_change_percent p = Some (fa_change_percent a)
                          \<and> a = to_alert p (fa_change_percent a))
           (filter hp_is_high_fluctuation ps) (collect_alerts ps)"
    by simp
  show ?case
  proof (cases "hp_is_high_fluctuation p")
    case True
    with Cons.prems obtain cp where cp: "hp_change_percent p = Some cp" by auto
    with True ih show ?thesis by (simp add: to_alert_change_percent)
  next
    case False
    with ih show ?thesis by (simp split: option.splits)
  qed
qed

lemma up_record:
  "get_stock_performance 5 (Inr up_info) sample_holding =
     \<lparr> hp_symbol = ''AAPL'', hp_name = ''Apple Inc.'', hp_shares = 100,
       hp_current_price = Some 110, hp_previous_close = Some 100,
       hp_change_amount = Some 10, hp_change_percent = Some 10,
       hp_day_high = None, hp_day_low = None, hp_volume = None,
       hp_market_value = Some 11000, hp_is_high_fluctuation = True \<rparr>"
  by (simp add: get_stock_performance_def up_info_def empty_info_def sample_holding_def
        compute_change_cases py_or_def truthy_def resolve_name_def)

text \<open>
  C2, as stated, fails on a record whose current price is zero: with a current price of 0
  and a previous close of 100 both values are present in the record, the formula gives
  -100 (which is beyond the threshold 5), and the evaluator leaves the change percent
  undefined and the record unflagged.
\<close>

theorem zero_price_counterexample:
  "hp_current_price (get_stock_performance 5 (Inr zero_price_info) sample_holding) = Some 0
   \<and> hp_previous_close (get_stock_performance 5 (Inr zero_price_info) sample_holding) = Some 100
   \<and> hp_change_percent (get_stock_performance 5 (Inr zero_price_info) sample_holding)
       \<noteq> Some ((0 - 100) / 100 * 100)
   \<and> \<bar>(0 - 100) / 100 * 100 :: real\<bar> \<ge> 5
   \<and> \<not> hp_is_high_fluctuation (get_stock_performance 5 (Inr zero_price_info) sample_holding)"
  by (simp add: get_stock_performance_def zero_price_info_def empty_info_def sample_holding_def
        compute_change_cases py_or_def truthy_def resolve_name_def)

text \<open>
  C2 (amended): for every performance record produced by the Performance Evaluator, if
  both current price and previous close are available and non-zero, the change percent
  equals (current - previous) / previous * 100 and the record is flagged if and only if the
  absolute change percent reaches the configured threshold; for every record whose
  previous close is unavailable the change percent is undefined and the flag is false;
  and in every record the flag holds exactly when the change percent is defined and its
  absolute value reaches the threshold.
\<close>

theorem performance_record_change:
  assumes "r \<in> set (pr_holdings (analyze_holdings threshold yf now holdings))"
  shows "(\<forall>c p. hp_current_price r = Some c \<and> hp_previous_close r = Some p \<and> c \<noteq> 0 \<and> p \<noteq> 0 \<longrightarrow>
            hp_change_percent r = Some ((c - p) / p * 100) \<and>
            (hp_is_high_fluctuation r \<longleftrightarrow> \<bar>(c - p) / p * 100\<bar> \<ge> threshold))
       \<and> (hp_previous_close r = None \<longrightarrow> hp_change_percent r = None \<and> \<not> hp_is_high_fluctuation r)
       \<and> (hp_is_high_fluctuation r \<longleftrightarrow> (\<exists>cp. hp_change_percent r = Some cp \<and> \<bar>cp\<bar> \<ge> threshold))"
proof -
  from assms obtain h where r: "r = get_stock_performance threshold (yf (h_symbol h)) h"
    by (auto simp: analyze_holdings_def Let_def)
  show ?thesis
    using get_stock_performance_fields [of threshold "yf (h_symbol h)" h]
    unfolding r [symmetric]
    by (auto split: option.splits if_splits)
qed

theorem performance_record_change_witness:
  "get_stock_performance 5 (Inr up_info) sample_holding
     \<in> set (pr_holdings (analyze_holdings (fluctuation_threshold default_settings) (\<lambda>s. Inr up_info) 0 [sample_holding]))
   \<and> hp_current_price (get_stock_performance 5 (Inr up_info) sample_holding) = Some 110
   \<and> hp_previous_close (get_stock_performance 5 (Inr up_info) sample_holding) = Some 100
   \<and> hp_change_percent (get_stock_performance 5 (Inr up_info) sample_holding) = Some 10
   \<and> hp_is_high_fluctuation (get_stock_performance 5 (Inr up_info) sample_holding)"
proof -
  have m: "get_stock_performance 5 (Inr up_info) sample_holding
     \<in> set (pr_holdings (analyze_holdings (fluctuation_threshold default_settings) (\<lambda>s. Inr up_info) 0 [sample_holding]))"
    by (simp add: analyze_holdings_def default_settings_def Let_def)
  have c: "hp_current_price (get_stock_performance 5 (Inr up_info) sample_holding) = Some 110"
    and p: "hp_previous_close (get_stock_performance 5 (Inr up_info) sample_holding) = Some 100"
    by (simp_all add: up_record)
  from performance_record_change [OF m] c p
  show ?thesis using m by (simp add: default_settings_def)
qed

text \<open>
  C10, as stated, fails for a quote that reports a 0 under the first key and a price
  under the fallback key: with a previous close of 0 and a regular-market previous close
  of 95 (or a current price of 0 and a regular-market price of 50) the evaluator takes
  the fallback value, computes the change and flags the record.
\<close>

theorem zero_with_fallback_counterexample:
  "previousClose fallback_close_info = Some 0
   \<and> hp_previous_close (get_stock_performance 5 (Inr fallback_close_info) sample_holding) = Some 95
   \<and> hp_change_amount (get_stock_performance 5 (Inr fallback_close_info) sample_holding) = Some 5
   \<and> hp_change_percent (get_stock_performance 5 (Inr fallback_close_info) sample_holding)
       = Some (5 / 95 * 100)
   \<and> hp_is_high_fluctuation (get_stock_performance 5 (Inr fallback_close_info) sample_holding)
   \<and> currentPrice fallback_price_info = Some 0
   \<and> hp_current_price (get_stock_performance 5 (Inr fallback_price_info) sample_holding) = Some 50
   \<and> hp_change_amount (get_stock_performance 5 (Inr fallback_price_info) sample_holding) = Some 10
   \<and> hp_change_percent (get_stock_performance 5 (Inr fallback_price_info) sample_holding) = Some 25
   \<and> hp_is_high_fluctuation (get_stock_performance 5 (Inr fallback_price_info) sample_holding)"
  by (simp add: get_stock_performance_def fallback_close_info_def fallback_price_info_def
        empty_info_def sample_holding_def compute_change_cases py_or_def truthy_def resolve_name_def)

text \<open>
  C10 (amended): for every quote whose previous close or current price, as the evaluator
  resolves it from the keys it reads (\<open>previousClose\<close> then \<open>regularMarketPreviousClose\<close>,
  \<open>currentPrice\<close> then \<open>regularMarketPrice\<close>; \<open>previousClose\<close> alone in \<open>_fetch_quote\<close>), is 0
  or missing, the value is treated as missing: the change amount and the change percent
  stay undefined and the flag stays false, so the computation of the change percent
  never divides by zero.
\<close>

theorem zero_price_is_missing:
  "(\<not> truthy (hp_previous_close (get_stock_performance threshold lookup h))
      \<or> \<not> truthy (hp_current_price (get_stock_performance threshold lookup h))
    \<longrightarrow> hp_change_amount (get_stock_performance threshold lookup h) = None
        \<and> hp_change_percent (get_stock_performance threshold lookup h) = None
        \<and> \<not> hp_is_high_fluctuation (get_stock_performance threshold lookup h))
   \<and> ((\<not> truthy (previousClose info) \<and> \<not> truthy (regularMarketPreviousClose info))
        \<or> (\<not> truthy (currentPrice info) \<and> \<not> truthy (regularMarketPrice info))
      \<longrightarrow> hp_change_amount (get_stock_performance threshold (Inr info) h) = None
          \<and> hp_change_percent (get_stock_performance threshold (Inr info) h) = None
          \<and> \<not> hp_is_high_fluctuation (get_stock_performance threshold (Inr info) h))
   \<and> (\<exists>res. compute_change threshold current_price previous_close = Inr res)
   \<and> (\<not> truthy previous_close \<or> \<not> truthy current_price
      \<longrightarrow> compute_change threshold current_price previous_close = Inr (None, None, False))
   \<and> (\<exists>c p cp. fetch_quote_change info = Inr (c, p, cp)
         \<and> (\<not> truthy p \<or> \<not> truthy c \<longrightarrow> cp = None))"
proof -
  have raw: "hp_change_amount (get_stock_performance threshold (Inr info) h) = None
          \<and> hp_change_percent (get_stock_performance threshold (Inr info) h) = None
          \<and> \<not> hp_is_high_fluctuation (get_stock_performance threshold (Inr info) h)"
    if "(\<not> truthy (previousClose info) \<and> \<not> truthy (regularMarketPreviousClose info))
        \<or> (\<not> truthy (currentPrice info) \<and> \<not> truthy (regularMarketPrice info))"
    using that
    by (auto simp: get_stock_performance_def degraded_def compute_change_cases py_or_def Let_def
             split: sum.splits)
  show ?thesis
    using get_stock_performance_fields [of threshold lookup h] raw
    by (auto simp: compute_change_cases fetch_quote_change_cases truthy_def Let_def
             split: option.splits)
qed

theorem zero_price_is_missing_witness:
  "hp_previous_close (get_stock_performance 5 (Inr zero_close_info) sample_holding) = Some 0
   \<and> hp_current_price (get_stock_performance 5 (Inr zero_close_info) sample_holding) = Some 110
   \<and> hp_change_amount (get_stock_performance 5 (Inr zero_close_info) sample_holding) = None
   \<and> hp_change_percent (get_stock_performance 5 (Inr zero_close_info) sample_holding) = None
   \<and> \<not> hp_is_high_fluctuation (get_stock_performance 5 (Inr zero_close_info) sample_holding)
   \<and> compute_change 5 (Some 110) (Some 0) = Inr (None, None, False)
   \<and> fetch_quote_change zero_close_info = Inr (Some 110, Some 0, None)"
proof -
  have p: "hp_previous_close (get_stock_performance 5 (Inr zero_close_info) sample_holding) = Some 0"
    and c: "hp_current_price (get_stock_performance 5 (Inr zero_close_info) sample_holding) = Some 110"
    by (simp_all add: get_stock_performance_def zero_close_info_def empty_info_def sample_holding_def
        compute_change_cases py_or_def truthy_def resolve_name_def)
  have f: "fetch_quote_change zero_close_info = Inr (Some 110, Some 0, None)"
    by (simp add: fetch_quote_change_cases zero_close_info_def empty_info_def py_or_def truthy_def)
  from zero_price_is_missing [where threshold = 5 and lookup = "Inr zero_close_info"
      and h = sample_holding and current_price = "Some 110" and previous_close = "Some 0"
      and info = zero_close_info]
  show ?thesis using p c f by (simp add: truthy_def)
qed

text \<open>
  C4: for every list of performance records that the evaluator produces,
  \<open>get_fluctuation_alerts\<close> returns exactly the records whose flag is set, each as its
  alert, ordered so that the absolute change percent is non-increasing, and records with
  equal absolute change percent keep their original relative order.
\<close>

theorem fluctuation_alerts_sorted:
  "\<exists>unsorted.
      list_all2 (\<lambda>p a. hp_change_percent p = Some (fa_change_percent a)
                        \<and> a = to_alert p (fa_change_percent a))
        (filter hp_is_high_fluctuation (pr_holdings (analyze_holdings threshold yf now holdings)))
        unsorted
    \<and> mset (get_fluctuation_alerts (pr_holdings (analyze_holdings threshold yf now holdings)))
        = mset unsorted
    \<and> sorted_wrt (\<lambda>a b. \<bar>fa_change_percent a\<bar> \<ge> \<bar>fa_change_percent b\<bar>)
        (get_fluctuation_alerts (pr_holdings (analyze_holdings threshold yf now holdings)))
    \<and> (\<forall>k. filter (\<lambda>a. \<bar>fa_change_percent a\<bar> = k)
               (get_fluctuation_alerts (pr_holdings (analyze_holdings threshold yf now holdings)))
           = filter (\<lambda>a. \<bar>fa_change_percent a\<bar> = k) unsorted)"
proof -
  let ?ps = "pr_holdings (analyze_holdings threshold yf now holdings)"
  let ?key = "\<lambda>a. \<bar>fa_change_percent a\<bar>"
  let ?xs = "collect_alerts ?ps"
  have r: "list_all2 (\<lambda>p a. hp_change_percent p = Some (fa_change_percent a)
                        \<and> a = to_alert p (fa_change_percent a))
        (filter hp_is_high_fluctuation ?ps) ?xs"
  proof (rule collect_alerts_flagged, intro ballI impI)
    fix p assume "p \<in> set ?ps" and "hp_is_high_fluctuation p"
    then show "hp_change_percent p \<noteq> None" by (rule evaluator_flag_has_change)
  qed
  have a: "mset (get_fluctuation_alerts ?ps) = mset ?xs"
    by (simp add: get_fluctuation_alerts_def sort_reverse_def)
  have "sorted (map (\<lambda>a. - ?key a) (sort_key (\<lambda>a. - ?key a) ?xs))"
    by (rule sorted_sort_key)
  then have b: "sorted_wrt (\<lambda>a b. ?key a \<ge> ?key b) (get_fluctuation_alerts ?ps)"
    by (simp add: sorted_map get_fluctuation_alerts_def sort_reverse_def)
  have c: "filter (\<lambda>a. ?key a = k) (get_fluctuation_alerts ?ps) = filter (\<lambda>a. ?key a = k) ?xs" for k
    using sort_key_stable [of "\<lambda>a. - ?key a" "- k" ?xs]
    by (simp add: get_fluctuation_alerts_def sort_reverse_def)
  from r a b c show ?thesis by blast
qed

section \<open>Properties of the orchestrator\<close>

lemma sample_stages:
  "holdings_stage sample_collaborators = Inr get_mock_holdings"
  "holdings_stage failing_collaborators = Inr get_mock_holdings"
  "c_analyze_holdings sample_collaborators hs = Inr (analyze_holdings 5 (\<lambda>s. Inr up_info) 0 hs)"
  "c_analyze_holdings failing_collaborators hs = Inr (analyze_holdings 5 (\<lambda>s. Inr up_info) 0 hs)"
  "earnings_stage default_request sample_collaborators syms = Inr []"
  "earnings_stage default_request failing_collaborators syms = Inl ''calendar unavailable''"
  "news_stage default_request sample_collaborators fsyms = Inr []"
  "c_get_earnings_for_symbols sample_collaborators syms = Inr []"
  "c_get_news_for_high_fluctuation sample_collaborators fsyms = Inr []"
  "c_utcnow sample_collaborators = 0"
  "c_utcnow failing_collaborators = 0"
  by (simp_all add: holdings_stage_def earnings_stage_def news_stage_def
        sample_collaborators_def failing_collaborators_def default_request_def)

lemma not_configured_default: "\<not> is_configured default_settings"
  by code_simp

lemma failing_run: "run_pipeline st default_request failing_collaborators = Inl ''calendar unavailable''"
  by (simp add: run_pipeline_def sample_stages Let_def)

lemma stage_failures:
  "holdings_stage c = Inl m \<Longrightarrow> run_pipeline st request c = Inl m"
  "holdings_stage c = Inr hs \<Longrightarrow> c_analyze_holdings c hs = Inl m \<Longrightarrow> run_pipeline st request c = Inl m"
  "holdings_stage c = Inr hs \<Longrightarrow> c_analyze_holdings c hs = Inr p \<Longrightarrow>
     earnings_stage request c (map h_symbol hs) = Inl m \<Longrightarrow> run_pipeline st request c = Inl m"
  "holdings_stage c = Inr hs \<Longrightarrow> c_analyze_holdings c hs = Inr p \<Longrightarrow>
     earnings_stage request c (map h_symbol hs) = Inr es \<Longrightarrow>
     news_stage request c (map fa_symbol (get_fluctuation_alerts (pr_holdings p))) = Inl m \<Longrightarrow>
     run_pipeline st request c = Inl m"
  "holdings_stage c = Inr hs \<Longrightarrow> c_analyze_holdings c hs = Inr p \<Longrightarrow>
     earnings_stage request c (map h_symbol hs) = Inr es \<Longrightarrow>
     news_stage request c (map fa_symbol (get_fluctuation_alerts (pr_holdings p))) = Inr ns \<Longrightarrow>
     summary_stage st c hs (pr_holdings p) (get_fluctuation_alerts (pr_holdings p)) es ns = Inl m \<Longrightarrow>
     run_pipeline st request c = Inl m"
  by (simp_all add: run_pipeline_def Let_def)

lemma sample_alerts_length:
  "length (get_fluctuation_alerts (pr_holdings (analyze_holdings 5 (\<lambda>s. Inr up_info) 0 get_mock_holdings))) = 5"
  by (simp add: get_fluctuation_alerts_def sort_reverse_def analyze_holdings_def get_mock_holdings_def
        mk_holding_def get_stock_performance_def up_info_def empty_info_def
        compute_change_cases py_or_def truthy_def resolve_name_def Let_def)






text \<open>
  C9: if the body of an \<open>/analyze\<close> run raises (any stage raising reaches the handler, see
  \<open>stage_failures\<close>), the caller gets the error response (status \<open>error\<close>, empty lists,
  holdings count 0), the stored latest analysis is left as it was, and every read
  endpoint answers as before the run.
\<close>

theorem failed_run_keeps_snapshot:
  assumes "run_pipeline st request c = Inl m" and "\<not> analysis_in_progress s"
  shows "analyze_portfolio st request c s = (Inr (error_response m (c_utcnow c)), s)
       \<and> ar_status (error_response m (c_utcnow c)) = ''error''
       \<and> ar_summary (error_response m (c_utcnow c)) = None
       \<and> ar_fluctuation_alerts (error_response m (c_utcnow c)) = []
       \<and> ar_upcoming_earnings (error_response m (c_utcnow c)) = []
       \<and> ar_news_items (error_response m (c_utcnow c)) = []
       \<and> ar_holdings_count (error_response m (c_utcnow c)) = 0
       \<and> latest_analysis (snd (analyze_portfolio st request c s)) = latest_analysis s
       \<and> get_latest_summary (snd (analyze_portfolio st request c s)) = get_latest_summary s
       \<and> get_fluctuations (snd (analyze_portfolio st request c s)) = get_fluctuations s
       \<and> get_earnings (snd (analyze_portfolio st request c s)) = get_earnings s
       \<and> get_news (snd (analyze_portfolio st request c s)) = get_news s
       \<and> get_analysis_status (snd (analyze_portfolio st request c s)) = get_analysis_status s"
proof -
  have "analyze_portfolio st request c s = (Inr (error_response m (c_utcnow c)), s)"
    using assms by (simp add: analyze_portfolio_def analyze_begin_def analyze_complete_def)
  then show ?thesis by (simp add: error_response_def)
qed

theorem failed_run_keeps_snapshot_witness:
  "run_pipeline default_settings default_request failing_collaborators = Inl ''calendar unavailable''
   \<and> \<not> analysis_in_progress idle_state
   \<and> analyze_portfolio default_settings default_request failing_collaborators idle_state
       = (Inr (error_response ''calendar unavailable'' 0), idle_state)"
proof -
  have a: "run_pipeline default_settings default_request failing_collaborators = Inl ''calendar unavailable''"
    by (rule failing_run)
  have b: "\<not> analysis_in_progress idle_state" by (simp add: idle_state_def)
  from failed_run_keeps_snapshot [OF a b] show ?thesis using a b by (simp add: sample_stages)
qed

text \<open>
  C7, as stated, fails in three places. With no provider configured, a run started by the
  scheduler completes with status \<open>success\<close> and stores a response without any summary;
  a run started by \<open>POST /analyze\<close> whose earnings stage raises answers without any summary;
  and the sentence of the fallback summary is the same for 0 and for 7 upcoming earnings:
  it holds the holdings and fluctuation counts only.
\<close>

theorem unconfigured_run_counterexample:
  "\<not> is_configured default_settings
   \<and> map_sum id ar_summary (scheduled_pipeline default_settings sample_collaborators) = Inr None
   \<and> map_sum id ar_status (scheduled_pipeline default_settings sample_collaborators) = Inr ''success''
   \<and> get_latest_summary (scheduled_complete default_settings sample_collaborators True idle_state)
       = None
   \<and> map_sum id ar_summary
        (fst (analyze_portfolio default_settings default_request failing_collaborators idle_state))
       = Inr None
   \<and> as_summary (fallback_summary 5 5 0 0) = as_summary (fallback_summary 5 5 7 0)
   \<and> as_key_insights (fallback_summary 5 5 0 0) \<noteq> as_key_insights (fallback_summary 5 5 7 0)"
proof -
  have s7: "show_nat 7 = ''7''" and s0: "show_nat 0 = ''0''" by code_simp+
  have a: "analyze_portfolio default_settings default_request failing_collaborators idle_state
           = (Inr (error_response ''calendar unavailable'' 0), idle_state)"
    by (simp add: analyze_portfolio_def analyze_begin_def analyze_complete_def failing_run
          idle_state_def sample_stages)
  have c1: "map_sum id ar_summary (scheduled_pipeline default_settings sample_collaborators) = Inr None"
    and c2: "map_sum id ar_status (scheduled_pipeline default_settings sample_collaborators)
             = Inr ''success''"
    using not_configured_default by (simp_all add: scheduled_pipeline_def sample_stages Let_def)
  have c3: "get_latest_summary (scheduled_complete default_settings sample_collaborators True idle_state)
            = None"
    using not_configured_default
    by (simp add: scheduled_pipeline_def scheduled_complete_def get_latest_summary_def
          sample_stages Let_def)
  have c4: "map_sum id ar_summary
        (fst (analyze_portfolio default_settings default_request failing_collaborators idle_state))
       = Inr None"
    by (simp add: a error_response_def)
  have c5: "as_summary (fallback_summary 5 5 0 0) = as_summary (fallback_summary 5 5 7 0)"
    and c6: "as_key_insights (fallback_summary 5 5 0 0) \<noteq> as_key_insights (fallback_summary 5 5 7 0)"
    by (simp_all add: fallback_summary_def s7 s0)
  from not_configured_default c1 c2 c3 c4 c5 c6 show ?thesis by blast
qed

text \<open>
  C7 (amended): when no LLM provider is configured, an analysis run started by
  \<open>POST /analyze\<close> in which the holdings, performance, earnings and news stages return
  produces the deterministic fallback summary: a fixed templated sentence with the exact
  holdings and fluctuation counts, key insights with the exact holdings, fluctuation and
  earnings counts, and \<open>model_used\<close> equal to \<open>none\<close>; this fallback path never raises.
\<close>

theorem fallback_summary_when_unconfigured:
  assumes "\<not> is_configured st"
    and "holdings_stage c = Inr holdings"
    and "c_analyze_holdings c holdings = Inr performance"
    and "earnings_stage request c (map h_symbol holdings) = Inr earnings"
    and "news_stage request c (map fa_symbol (get_fluctuation_alerts (pr_holdings performance))) = Inr news"
  shows "(\<exists>response summary.
            run_pipeline st request c = Inr response
          \<and> ar_summary response = Some summary
          \<and> summary = fallback_summary (length holdings)
                         (length (get_fluctuation_alerts (pr_holdings performance)))
                         (length earnings) (c_utcnow c)
          \<and> ar_holdings_count response = length holdings
          \<and> ar_fluctuation_alerts response = get_fluctuation_alerts (pr_holdings performance)
          \<and> ar_upcoming_earnings response = earnings
          \<and> as_model_used summary = ''none''
          \<and> as_summary summary =
               ''Portfolio analysis complete. '' @ show_nat (length holdings)
               @ '' holdings analyzed, ''
               @ show_nat (length (get_fluctuation_alerts (pr_holdings performance)))
               @ '' showing significant movement.''
          \<and> as_key_insights summary =
               [''Total holdings: '' @ show_nat (length holdings),
                ''High fluctuation stocks: ''
                  @ show_nat (length (get_fluctuation_alerts (pr_holdings performance))),
                ''Upcoming earnings: '' @ show_nat (length earnings)])
       \<and> (\<forall>hs ps fs es ns. summary_stage st c hs ps fs es ns =
             Inr (fallback_summary (length hs) (length fs) (length es) (c_utcnow c)))"
  using assms by (simp add: run_pipeline_def summary_stage_def fallback_summary_def Let_def)

theorem fallback_summary_when_unconfigured_witness:
  "\<not> is_configured default_settings
   \<and> holdings_stage sample_collaborators = Inr get_mock_holdings
   \<and> (\<exists>response summary.
         run_pipeline default_settings default_request sample_collaborators = Inr response
       \<and> ar_summary response = Some summary
       \<and> as_model_used summary = ''none''
       \<and> as_summary summary =
            ''Portfolio analysis complete. 5 holdings analyzed, 5 showing significant movement.''
       \<and> as_key_insights summary =
            [''Total holdings: 5'', ''High fluctuation stocks: 5'', ''Upcoming earnings: 0''])"
proof -
  have s5: "show_nat 5 = ''5''" and s0: "show_nat 0 = ''0''" by code_simp+
  have l: "length get_mock_holdings = 5" by (simp add: get_mock_holdings_def)
  from fallback_summary_when_unconfigured [where request = default_request,
      OF not_configured_default sample_stages(1) sample_stages(3) sample_stages(5) sample_stages(7)]
  show ?thesis
    using not_configured_default sample_stages(1)
    by (auto simp add: sample_alerts_length l s5 s0 sample_stages)
qed




section \<open>Properties of the collectors\<close>

lemma finish_earnings_window:
  "finish_earnings now tk symbol d aware = Some e \<Longrightarrow> 0 \<le> ee_days_until e \<and> ee_days_until e \<le> 30"
  by (auto simp: finish_earnings_def Let_def split: if_splits sum.splits name_field.splits)

lemma get_earnings_for_symbol_window:
  "get_earnings_for_symbol fts now tk symbol = Some e \<Longrightarrow> 0 \<le> ee_days_until e \<and> ee_days_until e \<le> 30"
  by (auto simp: get_earnings_for_symbol_def
           split: sum.splits calendar.splits if_splits option.splits date_entry.splits
                  list.splits py_date.splits
           dest: finish_earnings_window)

lemma fetch_earnings_window:
  assumes "e \<in> set (fetch_earnings fts yf now symbols)"
  shows "0 \<le> ee_days_until e \<and> ee_days_until e \<le> 30"
proof -
  from assms obtain symbol where "get_earnings_for_symbol fts now (yf symbol) symbol = Some e"
    by (auto simp: fetch_earnings_def List.map_filter_def Let_def)
  then show ?thesis by (rule get_earnings_for_symbol_window)
qed

lemma sort_permuted:
  fixes xs ys :: "('a :: linorder) list"
  assumes "mset ys = mset xs"
  shows "sort ys = sort xs"
  by (rule properties_for_sort) (simp_all add: assms)

lemma ttl_get_after_set:
  assumes "timer' < timer + ttl"
  shows "ttl_get (ttl_set maxsize ttl cache timer k v) timer' k = Some v"
proof -
  define others where "others = filter (\<lambda>(k', v', expires). k' \<noteq> k)
                                  (filter (\<lambda>(k', v', expires). timer < expires) cache)"
  define kept where "kept = drop (length others + 1 - maxsize) others"
  have "k \<notin> fst ` set others" by (auto simp: others_def)
  moreover have "set kept \<subseteq> set others" by (simp add: kept_def set_drop_subset)
  ultimately have "k \<notin> fst ` set kept" by blast
  then have "map_of kept k = None" by (simp add: map_of_eq_None_iff)
  then have "map_of (kept @ [(k, v, timer + ttl)]) k = Some (v, timer + ttl)"
    by (simp add: map_add_def)
  then show ?thesis
    using assms by (simp add: ttl_get_def ttl_set_def Let_def others_def kept_def)
qed

lemma ttl_contains_empty: "\<not> ttl_contains [] timer k"
  by (simp add: ttl_contains_def ttl_get_def)

lemma earnings_key_permuted:
  "mset symbols' = mset symbols \<Longrightarrow> earnings_cache_key symbols' = earnings_cache_key symbols"
  using sort_permuted [of symbols' symbols] by (simp add: earnings_cache_key_def)

lemma news_key_permuted:
  "mset symbols' = mset symbols \<Longrightarrow> news_cache_key symbols' k = news_cache_key symbols k"
  using sort_permuted [of symbols' symbols] by (simp add: news_cache_key_def)

lemma earnings_miss:
  assumes "\<not> ttl_contains (e_cache coll) (at_contains ck) (earnings_cache_key symbols)"
  shows "get_earnings_for_symbols st fts yf ck now symbols coll
         = (Inr (fetch_earnings fts yf now symbols),
            \<lparr> e_cache = ttl_set 100 (earnings_cache_hours st * 3600) (e_cache coll) (at_setitem ck)
                          (earnings_cache_key symbols) (fetch_earnings fts yf now symbols),
              e_lookups = e_lookups coll @ symbols \<rparr>)"
  using assms by (simp add: get_earnings_for_symbols_def Let_def)

lemma earnings_hit:
  assumes "ttl_get (e_cache coll) (at_contains ck) (earnings_cache_key symbols) = Some v"
    and "ttl_get (e_cache coll) (at_getitem ck) (earnings_cache_key symbols) = Some v"
  shows "get_earnings_for_symbols st fts yf ck now symbols coll = (Inr v, coll)"
  using assms by (simp add: get_earnings_for_symbols_def Let_def ttl_contains_def)

lemma news_miss:
  assumes "\<not> ttl_contains (n_cache coll) (at_contains ck) (news_cache_key symbols k)"
  shows "get_news_for_symbols st fts yn ck symbols k coll
         = (Inr (fetch_news fts yn symbols k),
            \<lparr> n_cache = ttl_set 100 (news_cache_minutes st * 60) (n_cache coll) (at_setitem ck)
                          (news_cache_key symbols k) (fetch_news fts yn symbols k),
              n_lookups = n_lookups coll @ symbols \<rparr>)"
  using assms by (simp add: get_news_for_symbols_def Let_def)

lemma news_hit:
  assumes "ttl_get (n_cache coll) (at_contains ck) (news_cache_key symbols k) = Some v"
    and "ttl_get (n_cache coll) (at_getitem ck) (news_cache_key symbols k) = Some v"
  shows "get_news_for_symbols st fts yn ck symbols k coll = (Inr v, coll)"
  using assms by (simp add: get_news_for_symbols_def Let_def ttl_contains_def)

lemma earnings_after_clear:
  "get_earnings_for_symbols st fts yf ck now symbols (earnings_clear_cache coll)
   = (Inr (fetch_earnings fts yf now symbols),
      \<lparr> e_cache = ttl_set 100 (earnings_cache_hours st * 3600) [] (at_setitem ck)
                    (earnings_cache_key symbols) (fetch_earnings fts yf now symbols),
        e_lookups = e_lookups coll @ symbols \<rparr>)"
  by (simp add: earnings_miss earnings_clear_cache_def ttl_contains_empty)

lemma news_after_clear:
  "get_news_for_symbols st fts yn ck symbols k (news_clear_cache coll)
   = (Inr (fetch_news fts yn symbols k),
      \<lparr> n_cache = ttl_set 100 (news_cache_minutes st * 60) [] (at_setitem ck)
                    (news_cache_key symbols k) (fetch_news fts yn symbols k),
        n_lookups = n_lookups coll @ symbols \<rparr>)"
  by (simp add: news_miss news_clear_cache_def ttl_contains_empty)

lemma ttl_get_same_value:
  assumes "ttl_get cache t k = Some v" and "ttl_contains cache t' k"
  shows "ttl_get cache t' k = Some v"
  using assms by (auto simp: ttl_get_def ttl_contains_def split: option.splits if_splits)

lemma ttl_get_set_value:
  assumes "ttl_contains (ttl_set maxsize ttl cache timer k v) t' k"
  shows "ttl_get (ttl_set maxsize ttl cache timer k v) t' k = Some v"
proof -
  define others where "others = filter (\<lambda>(k', v', expires). k' \<noteq> k)
                                  (filter (\<lambda>(k', v', expires). timer < expires) cache)"
  define kept where "kept = drop (length others + 1 - maxsize) others"
  have "k \<notin> fst ` set others" by (auto simp: others_def)
  moreover have "set kept \<subseteq> set others" by (simp add: kept_def set_drop_subset)
  ultimately have "k \<notin> fst ` set kept" by blast
  then have "map_of kept k = None" by (simp add: map_of_eq_None_iff)
  then have "map_of (kept @ [(k, v, timer + ttl)]) k = Some (v, timer + ttl)"
    by (simp add: map_add_def)
  then show ?thesis
    using assms
    by (simp add: ttl_get_def ttl_contains_def ttl_set_def Let_def others_def kept_def
             split: if_splits)
qed

lemma ttl_contains_after_set:
  "timer' < timer + ttl \<Longrightarrow> ttl_contains (ttl_set maxsize ttl cache timer k v) timer' k"
  by (simp add: ttl_contains_def ttl_get_after_set)

lemma earnings_repeat:
  assumes "mset symbols' = mset symbols"
    and "get_earnings_for_symbols st fts yf ck now symbols ec = (Inr r, ec1)"
    and "ttl_contains (e_cache ec1) (at_contains ck') (earnings_cache_key symbols)"
    and "ttl_contains (e_cache ec1) (at_getitem ck') (earnings_cache_key symbols)"
  shows "get_earnings_for_symbols st fts' yf' ck' now' symbols' ec1 = (Inr r, ec1)"
proof -
  have k: "earnings_cache_key symbols' = earnings_cache_key symbols"
    using assms(1) by (rule earnings_key_permuted)
  have v: "ttl_get (e_cache ec1) t (earnings_cache_key symbols) = Some r"
    if "ttl_contains (e_cache ec1) t (earnings_cache_key symbols)" for t
  proof (cases "ttl_contains (e_cache ec) (at_contains ck) (earnings_cache_key symbols)")
    case True
    with assms(2) have "ec1 = ec"
      and "ttl_get (e_cache ec) (at_getitem ck) (earnings_cache_key symbols) = Some r"
      by (auto simp: get_earnings_for_symbols_def Let_def split: option.splits)
    with that show ?thesis by (auto intro: ttl_get_same_value)
  next
    case False
    from assms(2) earnings_miss [OF False, of st fts yf now]
    have "r = fetch_earnings fts yf now symbols"
      and "e_cache ec1 = ttl_set 100 (earnings_cache_hours st * 3600) (e_cache ec) (at_setitem ck)
                          (earnings_cache_key symbols) (fetch_earnings fts yf now symbols)"
      by auto
    with that show ?thesis by (simp add: ttl_get_set_value)
  qed
  show ?thesis
    by (rule earnings_hit) (simp_all only: k v [OF assms(3)] v [OF assms(4)])
qed

lemma news_repeat:
  assumes "mset symbols' = mset symbols"
    and "get_news_for_symbols st fts yn ck symbols k nc = (Inr r, nc1)"
    and "ttl_contains (n_cache nc1) (at_contains ck') (news_cache_key symbols k)"
    and "ttl_contains (n_cache nc1) (at_getitem ck') (news_cache_key symbols k)"
  shows "get_news_for_symbols st fts' yn' ck' symbols' k nc1 = (Inr r, nc1)"
proof -
  have kk: "news_cache_key symbols' k = news_cache_key symbols k"
    using assms(1) by (rule news_key_permuted)
  have v: "ttl_get (n_cache nc1) t (news_cache_key symbols k) = Some r"
    if "ttl_contains (n_cache nc1) t (news_cache_key symbols k)" for t
  proof (cases "ttl_contains (n_cache nc) (at_contains ck) (news_cache_key symbols k)")
    case True
    with assms(2) have "nc1 = nc"
      and "ttl_get (n_cache nc) (at_getitem ck) (news_cache_key symbols k) = Some r"
      by (auto simp: get_news_for_symbols_def Let_def split: option.splits)
    with that show ?thesis by (auto intro: ttl_get_same_value)
  next
    case False
    from assms(2) news_miss [OF False, of st fts yn]
    have "r = fetch_news fts yn symbols k"
      and "n_cache nc1 = ttl_set 100 (news_cache_minutes st * 60) (n_cache nc) (at_setitem ck)
                          (news_cache_key symbols k) (fetch_news fts yn symbols k)"
      by auto
    with that show ?thesis by (simp add: ttl_get_set_value)
  qed
  show ?thesis
    by (rule news_hit) (simp_all only: kk v [OF assms(3)] v [OF assms(4)])
qed

lemma earnings_window:
  assumes "\<not> ttl_contains (e_cache ec) (at_contains ck) (earnings_cache_key symbols)"
    and "t < at_setitem ck + earnings_cache_hours st * 3600"
  shows "ttl_contains (e_cache (snd (get_earnings_for_symbols st fts yf ck now symbols ec))) t
           (earnings_cache_key symbols)"
  by (simp add: earnings_miss [OF assms(1)] ttl_contains_after_set [OF assms(2)])

lemma news_window:
  assumes "\<not> ttl_contains (n_cache nc) (at_contains ck) (news_cache_key symbols k)"
    and "t < at_setitem ck + news_cache_minutes st * 60"
  shows "ttl_contains (n_cache (snd (get_news_for_symbols st fts yn ck symbols k nc))) t
           (news_cache_key symbols k)"
  by (simp add: news_miss [OF assms(1)] ttl_contains_after_set [OF assms(2)])

text \<open>
  C3: the events of the primary path lie in the window (\<open>fetch_earnings_window\<close>), but the
  backup source keeps every row of a requested symbol whatever its date: read on
  2026-11-04, a page with an event on 2026-12-14 and an event on 2026-10-30 gives events
  with 40 and with -5 days until earnings.
\<close>

theorem backup_source_outside_window:
  "map (\<lambda>e. (ee_symbol e, ee_days_until e))
     (scrape_nasdaq_earnings sample_strptime sample_now sample_page [''aapl'', ''msft''])
   = [(''AAPL'', 40), (''MSFT'', - 5)]"
  by code_simp

text \<open>
  C5: for both collectors, two calls whose symbol lists are permutations of each other
  compute the same cache key, the comma-joined sorted symbol list (followed by the item
  limit for news). So when the second call reads the cache while the entry of the first
  call is alive, it returns the first call's list and leaves the collector as it was, without
  any lookup; an entry stored by a call that fetched is alive at every time before the
  time of the store plus the TTL. After \<open>clear_cache\<close>, the next call looks every symbol up
  again.
\<close>

theorem permuted_symbols_hit_cache:
  assumes "mset symbols' = mset symbols"
    and "get_earnings_for_symbols st fts yf ck now symbols ec = (Inr cached_earnings, ec1)"
    and "ttl_contains (e_cache ec1) (at_contains ck') (earnings_cache_key symbols)"
    and "ttl_contains (e_cache ec1) (at_getitem ck') (earnings_cache_key symbols)"
    and "get_news_for_symbols st fts yn ck symbols k nc = (Inr cached_news, nc1)"
    and "ttl_contains (n_cache nc1) (at_contains ck') (news_cache_key symbols k)"
    and "ttl_contains (n_cache nc1) (at_getitem ck') (news_cache_key symbols k)"
  shows "earnings_cache_key symbols' = earnings_cache_key symbols
       \<and> earnings_cache_key symbols = join '','' (sort symbols)
       \<and> news_cache_key symbols' k = news_cache_key symbols k
       \<and> news_cache_key symbols k = join '','' (sort symbols) @ '':'' @ show_int k
       \<and> get_earnings_for_symbols st fts' yf' ck' now' symbols' ec1 = (Inr cached_earnings, ec1)
       \<and> get_news_for_symbols st fts' yn' ck' symbols' k nc1 = (Inr cached_news, nc1)
       \<and> (\<not> ttl_contains (e_cache ec) (at_contains ck) (earnings_cache_key symbols) \<longrightarrow>
            e_lookups ec1 = e_lookups ec @ symbols
          \<and> (\<forall>t. t < at_setitem ck + earnings_cache_hours st * 3600 \<longrightarrow>
                 ttl_contains (e_cache ec1) t (earnings_cache_key symbols)))
       \<and> (\<not> ttl_contains (n_cache nc) (at_contains ck) (news_cache_key symbols k) \<longrightarrow>
            n_lookups nc1 = n_lookups nc @ symbols
          \<and> (\<forall>t. t < at_setitem ck + news_cache_minutes st * 60 \<longrightarrow>
                 ttl_contains (n_cache nc1) t (news_cache_key symbols k)))
       \<and> get_earnings_for_symbols st fts' yf' ck'' now' symbols' (earnings_clear_cache ec1)
          = (Inr (fetch_earnings fts' yf' now' symbols'),
             \<lparr> e_cache = ttl_set 100 (earnings_cache_hours st * 3600) [] (at_setitem ck'')
                           (earnings_cache_key symbols') (fetch_earnings fts' yf' now' symbols'),
               e_lookups = e_lookups ec1 @ symbols' \<rparr>)
       \<and> get_news_for_symbols st fts' yn' ck'' symbols' k (news_clear_cache nc1)
          = (Inr (fetch_news fts' yn' symbols' k),
             \<lparr> n_cache = ttl_set 100 (news_cache_minutes st * 60) [] (at_setitem ck'')
                           (news_cache_key symbols' k) (fetch_news fts' yn' symbols' k),
               n_lookups = n_lookups nc1 @ symbols' \<rparr>)"
proof -
  have k1: "earnings_cache_key symbols' = earnings_cache_key symbols"
    using assms(1) by (rule earnings_key_permuted)
  have k2: "earnings_cache_key symbols = join '','' (sort symbols)"
    by (simp add: earnings_cache_key_def)
  have k3: "news_cache_key symbols' k = news_cache_key symbols k"
    using assms(1) by (rule news_key_permuted)
  have k4: "news_cache_key symbols k = join '','' (sort symbols) @ '':'' @ show_int k"
    by (simp add: news_cache_key_def)
  have e1: "get_earnings_for_symbols st fts' yf' ck' now' symbols' ec1 = (Inr cached_earnings, ec1)"
    using assms(1) assms(2) assms(3) assms(4) by (rule earnings_repeat)
  have n1: "get_news_for_symbols st fts' yn' ck' symbols' k nc1 = (Inr cached_news, nc1)"
    using assms(1) assms(5) assms(6) assms(7) by (rule news_repeat)
  have e2: "e_lookups ec1 = e_lookups ec @ symbols
          \<and> (\<forall>t. t < at_setitem ck + earnings_cache_hours st * 3600 \<longrightarrow>
                 ttl_contains (e_cache ec1) t (earnings_cache_key symbols))"
    if m: "\<not> ttl_contains (e_cache ec) (at_contains ck) (earnings_cache_key symbols)"
  proof -
    have "ec1 = snd (get_earnings_for_symbols st fts yf ck now symbols ec)"
      by (simp add: assms(2))
    then show ?thesis
      using earnings_window [OF m, of _ st fts yf now] by (simp add: earnings_miss [OF m])
  qed
  have n2: "n_lookups nc1 = n_lookups nc @ symbols
          \<and> (\<forall>t. t < at_setitem ck + news_cache_minutes st * 60 \<longrightarrow>
                 ttl_contains (n_cache nc1) t (news_cache_key symbols k))"
    if m: "\<not> ttl_contains (n_cache nc) (at_contains ck) (news_cache_key symbols k)"
  proof -
    have "nc1 = snd (get_news_for_symbols st fts yn ck symbols k nc)"
      by (simp add: assms(5))
    then show ?thesis
      using news_window [OF m, of _ st fts yn] by (simp add: news_miss [OF m])
  qed
  note e3 = earnings_after_clear [of st fts' yf' ck'' now' symbols' ec1]
  note n3 = news_after_clear [of st fts' yn' ck'' symbols' k nc1]
  from k1 k2 k3 k4 e1 n1 e2 n2 e3 n3 show ?thesis by blast
qed

theorem permuted_symbols_hit_cache_witness:
  "mset [''AAPL'', ''MSFT''] = mset [''MSFT'', ''AAPL'']
   \<and> \<not> ttl_contains (e_cache new_earnings_collector) (at_contains (at_instant 0))
         (earnings_cache_key [''MSFT'', ''AAPL''])
   \<and> earnings_cache_key [''AAPL'', ''MSFT''] = earnings_cache_key [''MSFT'', ''AAPL'']
   \<and> get_earnings_for_symbols default_settings naive_fromtimestamp (\<lambda>symbol. sample_ticker)
        (at_instant 100) sample_now [''AAPL'', ''MSFT'']
        (snd (get_earnings_for_symbols default_settings naive_fromtimestamp
               (\<lambda>symbol. sample_ticker) (at_instant 0) sample_now [''MSFT'', ''AAPL'']
               new_earnings_collector))
      = get_earnings_for_symbols default_settings naive_fromtimestamp (\<lambda>symbol. sample_ticker)
          (at_instant 0) sample_now [''MSFT'', ''AAPL''] new_earnings_collector
   \<and> e_lookups (snd (get_earnings_for_symbols default_settings naive_fromtimestamp
               (\<lambda>symbol. sample_ticker) (at_instant 0) sample_now [''MSFT'', ''AAPL'']
               new_earnings_collector))
      = [''MSFT'', ''AAPL'']
   \<and> get_news_for_symbols default_settings naive_fromtimestamp no_news (at_instant 100)
        [''AAPL'', ''MSFT''] 3
        (snd (get_news_for_symbols default_settings naive_fromtimestamp no_news (at_instant 0)
               [''MSFT'', ''AAPL''] 3 new_news_collector))
      = get_news_for_symbols default_settings naive_fromtimestamp no_news (at_instant 0)
          [''MSFT'', ''AAPL''] 3 new_news_collector"
proof -
  let ?e = "get_earnings_for_symbols default_settings naive_fromtimestamp (\<lambda>symbol. sample_ticker)
          (at_instant 0) sample_now [''MSFT'', ''AAPL''] new_earnings_collector"
  let ?n = "get_news_for_symbols default_settings naive_fromtimestamp no_news (at_instant 0)
          [''MSFT'', ''AAPL''] 3 new_news_collector"
  have h1: "mset [''AAPL'', ''MSFT''] = mset [''MSFT'', ''AAPL'']" by simp
  have me: "\<not> ttl_contains (e_cache new_earnings_collector) (at_contains (at_instant 0))
              (earnings_cache_key [''MSFT'', ''AAPL''])"
    by (simp add: new_earnings_collector_def ttl_contains_empty)
  have mn: "\<not> ttl_contains (n_cache new_news_collector) (at_contains (at_instant 0))
              (news_cache_key [''MSFT'', ''AAPL''] 3)"
    by (simp add: new_news_collector_def ttl_contains_empty)
  have fe: "?e = (Inr (fetch_earnings naive_fromtimestamp (\<lambda>symbol. sample_ticker) sample_now
                         [''MSFT'', ''AAPL'']), snd ?e)"
    by (simp add: earnings_miss [OF me])
  have fn: "?n = (Inr (fetch_news naive_fromtimestamp no_news [''MSFT'', ''AAPL''] 3), snd ?n)"
    by (simp add: news_miss [OF mn])
  have t: "(100::int) < at_setitem (at_instant 0) + earnings_cache_hours default_settings * 3600"
          "(100::int) < at_setitem (at_instant 0) + news_cache_minutes default_settings * 60"
    by (simp_all add: at_instant_def default_settings_def)
  have c: "at_contains (at_instant 100) = 100" "at_getitem (at_instant 100) = 100"
    by (simp_all add: at_instant_def)
  have le: "ttl_contains (e_cache (snd ?e)) (at_contains (at_instant 100))
              (earnings_cache_key [''MSFT'', ''AAPL''])"
           "ttl_contains (e_cache (snd ?e)) (at_getitem (at_instant 100))
              (earnings_cache_key [''MSFT'', ''AAPL''])"
    unfolding c by (rule earnings_window [OF me t(1)])+
  have ln: "ttl_contains (n_cache (snd ?n)) (at_contains (at_instant 100))
              (news_cache_key [''MSFT'', ''AAPL''] 3)"
           "ttl_contains (n_cache (snd ?n)) (at_getitem (at_instant 100))
              (news_cache_key [''MSFT'', ''AAPL''] 3)"
    unfolding c by (rule news_window [OF mn t(2)])+
  note r = permuted_symbols_hit_cache [OF h1 fe le(1) le(2) fn ln(1) ln(2),
      where fts' = naive_fromtimestamp and yf' = "\<lambda>symbol. sample_ticker" and now' = sample_now
        and yn' = no_news]
  from r have a: "earnings_cache_key [''AAPL'', ''MSFT''] = earnings_cache_key [''MSFT'', ''AAPL'']"
    by blast
  from r fe have b: "get_earnings_for_symbols default_settings naive_fromtimestamp
        (\<lambda>symbol. sample_ticker) (at_instant 100) sample_now [''AAPL'', ''MSFT''] (snd ?e) = ?e"
    by simp
  from r me have d: "e_lookups (snd ?e) = [''MSFT'', ''AAPL'']"
    by (simp add: new_earnings_collector_def)
  from r fn have e: "get_news_for_symbols default_settings naive_fromtimestamp no_news
        (at_instant 100) [''AAPL'', ''MSFT''] 3 (snd ?n) = ?n"
    by simp
  from h1 me a b d e show ?thesis by blast
qed

section \<open>Properties of the Holdings Source Adapter\<close>

lemma holdings_data_wrapped:
  "holdings_data (JObj [(''portfolio_holdings'', v)]) = v"
  "holdings_data (JObj [(''holdings'', v)]) = v"
  "holdings_data (JObj [(''data'', v)]) = v"
  "holdings_data (JObj [(''positions'', v)]) = v"
  by (simp_all add: holdings_data_def has_key_def get_def)

lemma sample_item_parsed:
  "parse_single_holding (\<lambda>x. None) sample_item
   = Inr (Some \<lparr> h_symbol = ''AAPL'', h_name = [], h_shares = 10, h_average_cost = None,
                 h_current_price = Some 2, h_market_value = Some 20, h_sector = None \<rparr>)"
proof -
  have u: "upper ''aapl'' = ''AAPL''" by code_simp
  show ?thesis
    by (simp add: parse_single_holding_def sample_item_def get_def py_float_def
          float_if_truthy_def make_holding_def validate_optional_float_def
          validate_optional_str_def u Let_def)
qed

text \<open>
  C6: for every list of items, parsing the bare array and parsing the same array wrapped
  under the key \<open>holdings\<close>, \<open>portfolio_holdings\<close>, \<open>data\<close> or \<open>positions\<close> give the same
  result (the same holdings, or the same exception), also when the wrapper has other
  members, as long as no wrapper key of higher priority is present; an object without
  any wrapper key is parsed as the one-element list holding it.
\<close>

theorem wrapped_payload_same_holdings:
  "parse_holdings pf (JObj [(''holdings'', JArr items)]) = parse_holdings pf (JArr items)
   \<and> parse_holdings pf (JObj [(''portfolio_holdings'', JArr items)]) = parse_holdings pf (JArr items)
   \<and> parse_holdings pf (JObj [(''data'', JArr items)]) = parse_holdings pf (JArr items)
   \<and> parse_holdings pf (JObj [(''positions'', JArr items)]) = parse_holdings pf (JArr items)
   \<and> parse_holdings pf (JArr items) = parse_items pf items
   \<and> (has_key d ''portfolio_holdings'' \<and> get d ''portfolio_holdings'' = JArr items
        \<longrightarrow> parse_holdings pf (JObj d) = parse_holdings pf (JArr items))
   \<and> (\<not> has_key d ''portfolio_holdings'' \<and> has_key d ''holdings'' \<and> get d ''holdings'' = JArr items
        \<longrightarrow> parse_holdings pf (JObj d) = parse_holdings pf (JArr items))
   \<and> (\<not> has_key d ''portfolio_holdings'' \<and> \<not> has_key d ''holdings'' \<and> has_key d ''data''
        \<and> get d ''data'' = JArr items
        \<longrightarrow> parse_holdings pf (JObj d) = parse_holdings pf (JArr items))
   \<and> (\<not> has_key d ''portfolio_holdings'' \<and> \<not> has_key d ''holdings'' \<and> \<not> has_key d ''data''
        \<and> has_key d ''positions'' \<and> get d ''positions'' = JArr items
        \<longrightarrow> parse_holdings pf (JObj d) = parse_holdings pf (JArr items))
   \<and> (\<not> has_key d ''portfolio_holdings'' \<and> \<not> has_key d ''holdings'' \<and> \<not> has_key d ''data''
        \<and> \<not> has_key d ''positions''
        \<longrightarrow> parse_holdings pf (JObj d) = parse_holdings pf (JArr [JObj d]))"
proof -
  have w: "parse_holdings pf (JObj [(''holdings'', JArr items)]) = parse_holdings pf (JArr items)"
          "parse_holdings pf (JObj [(''portfolio_holdings'', JArr items)]) = parse_holdings pf (JArr items)"
          "parse_holdings pf (JObj [(''data'', JArr items)]) = parse_holdings pf (JArr items)"
          "parse_holdings pf (JObj [(''positions'', JArr items)]) = parse_holdings pf (JArr items)"
    by (simp_all add: parse_holdings_def holdings_data_wrapped) (simp_all add: holdings_data_def)
  have b: "parse_holdings pf (JArr items) = parse_items pf items"
    by (simp add: parse_holdings_def holdings_data_def py_iter_def)
  have g1: "parse_holdings pf (JObj d) = parse_holdings pf (JArr items)"
    if "has_key d ''portfolio_holdings''" "get d ''portfolio_holdings'' = JArr items"
    using that by (simp add: parse_holdings_def holdings_data_def)
  have g2: "parse_holdings pf (JObj d) = parse_holdings pf (JArr items)"
    if "\<not> has_key d ''portfolio_holdings''" "has_key d ''holdings''" "get d ''holdings'' = JArr items"
    using that by (simp add: parse_holdings_def holdings_data_def)
  have g3: "parse_holdings pf (JObj d) = parse_holdings pf (JArr items)"
    if "\<not> has_key d ''portfolio_holdings''" "\<not> has_key d ''holdings''" "has_key d ''data''"
       "get d ''data'' = JArr items"
    using that by (simp add: parse_holdings_def holdings_data_def)
  have g4: "parse_holdings pf (JObj d) = parse_holdings pf (JArr items)"
    if "\<not> has_key d ''portfolio_holdings''" "\<not> has_key d ''holdings''" "\<not> has_key d ''data''"
       "has_key d ''positions''" "get d ''positions'' = JArr items"
    using that by (simp add: parse_holdings_def holdings_data_def)
  have s: "parse_holdings pf (JObj d) = parse_holdings pf (JArr [JObj d])"
    if "\<not> has_key d ''portfolio_holdings''" "\<not> has_key d ''holdings''" "\<not> has_key d ''data''"
       "\<not> has_key d ''positions''"
    using that by (simp add: parse_holdings_def holdings_data_def)
  from w b g1 g2 g3 g4 s show ?thesis by blast
qed

theorem wrapped_payload_same_holdings_witness:
  "\<not> has_key [(''ticker'', JStr ''aapl''), (''quantity'', JNum 10), (''price'', JNum 2)] ''portfolio_holdings''
   \<and> has_key [(''data'', JArr [sample_item]), (''count'', JNum 1)] ''data''
   \<and> parse_holdings (\<lambda>x. None) (JObj [(''data'', JArr [sample_item]), (''count'', JNum 1)])
       = Inr [\<lparr> h_symbol = ''AAPL'', h_name = [], h_shares = 10, h_average_cost = None,
                h_current_price = Some 2, h_market_value = Some 20, h_sector = None \<rparr>]
   \<and> parse_holdings (\<lambda>x. None) (JObj [(''holdings'', JArr [sample_item])])
       = Inr [\<lparr> h_symbol = ''AAPL'', h_name = [], h_shares = 10, h_average_cost = None,
                h_current_price = Some 2, h_market_value = Some 20, h_sector = None \<rparr>]
   \<and> parse_holdings (\<lambda>x. None) sample_item
       = Inr [\<lparr> h_symbol = ''AAPL'', h_name = [], h_shares = 10, h_average_cost = None,
                h_current_price = Some 2, h_market_value = Some 20, h_sector = None \<rparr>]"
proof -
  let ?d = "[(''ticker'', JStr ''aapl''), (''quantity'', JNum 10), (''price'', JNum 2)]"
  let ?w = "[(''data'', JArr [sample_item]), (''count'', JNum 1)]"
  have k: "\<not> has_key ?d ''portfolio_holdings''" "\<not> has_key ?d ''holdings''"
          "\<not> has_key ?d ''data''" "\<not> has_key ?d ''positions''"
    by (simp_all add: has_key_def)
  have kw: "\<not> has_key ?w ''portfolio_holdings''" "\<not> has_key ?w ''holdings''" "has_key ?w ''data''"
           "get ?w ''data'' = JArr [sample_item]"
    by (simp_all add: has_key_def get_def)
  have p: "parse_items (\<lambda>x. None) [sample_item]
       = Inr [\<lparr> h_symbol = ''AAPL'', h_name = [], h_shares = 10, h_average_cost = None,
                h_current_price = Some 2, h_market_value = Some 20, h_sector = None \<rparr>]"
    by (simp add: sample_item_parsed)
  note t1 = wrapped_payload_same_holdings [where pf = "\<lambda>x. None" and items = "[sample_item]" and d = ?w]
  note t2 = wrapped_payload_same_holdings [where pf = "\<lambda>x. None" and items = "[sample_item]" and d = ?d]
  from t1 kw p have a: "parse_holdings (\<lambda>x. None) (JObj ?w)
       = Inr [\<lparr> h_symbol = ''AAPL'', h_name = [], h_shares = 10, h_average_cost = None,
                h_current_price = Some 2, h_market_value = Some 20, h_sector = None \<rparr>]"
    by simp
  from t1 p have b: "parse_holdings (\<lambda>x. None) (JObj [(''holdings'', JArr [sample_item])])
       = Inr [\<lparr> h_symbol = ''AAPL'', h_name = [], h_shares = 10, h_average_cost = None,
                h_current_price = Some 2, h_market_value = Some 20, h_sector = None \<rparr>]"
    by simp
  from t2 k have "parse_holdings (\<lambda>x. None) (JObj ?d) = parse_holdings (\<lambda>x. None) (JArr [JObj ?d])"
    by blast
  with t1 p have c: "parse_holdings (\<lambda>x. None) sample_item
       = Inr [\<lparr> h_symbol = ''AAPL'', h_name = [], h_shares = 10, h_average_cost = None,
                h_current_price = Some 2, h_market_value = Some 20, h_sector = None \<rparr>]"
    by (simp add: sample_item_def)
  from k(1) kw(3) a b c show ?thesis by blast
qed

section \<open>Properties of the Schedule Controller\<close>

lemma split_samples:
  "split ''0 9,16 * * 1-5'' = [''0'', ''9,16'', ''*'', ''*'', ''1-5'']"
  "split ''bad cron'' = [''bad'', ''cron'']"
  "split ''bad 9 * * *'' = [''bad'', ''9'', ''*'', ''*'', ''*'']"
  "split ''0 8 * * *'' = [''0'', ''8'', ''*'', ''*'', ''*'']"
  by code_simp+

text \<open>
  C8, as stated, fails while the scheduler is stopped: an update with the valid
  expression \<open>0 9,16 * * 1-5\<close> succeeds and installs nothing, and a later \<open>start\<close> takes the
  trigger of the configured expression.
\<close>

theorem update_while_stopped_counterexample:
  "update_cron sample_trigger ''0 9,16 * * 1-5'' Stopped
     = (Inr ''Cron expression updated to: 0 9,16 * * 1-5'', Stopped)
   \<and> start sample_trigger (''0'', ''9,16'', ''*'', ''*'', ''mon-fri'') ''0 8 * * *''
       (snd (update_cron sample_trigger ''0 9,16 * * 1-5'' Stopped))
     = Inr (Running (''0'', ''8'', ''*'', ''*'', ''*''))"
  by (simp add: update_cron_def update_schedule_def start_def split_samples is_running_def
        sample_trigger_def Let_def)

text \<open>
  C8 (amended): updating the schedule with a cron expression of fewer than 5 fields, or
  one rejected by trigger construction, fails with the validation error 400 and leaves
  the current schedule unchanged; updating with a valid expression of 5 fields succeeds,
  and installs the new trigger when the scheduler is running; when the scheduler is
  stopped the update succeeds and installs nothing.
\<close>

theorem update_cron_validates:
  "(length (split cron_expression) < 5 \<longrightarrow>
      update_cron cron_trigger cron_expression s
      = (Inl (HTTPException 400
               ''Invalid cron expression: Cron expression must have at least 5 parts''), s))
   \<and> (5 \<le> length (split cron_expression)
       \<and> cron_trigger (split cron_expression ! 0) (split cron_expression ! 1)
            (split cron_expression ! 2) (split cron_expression ! 3) (split cron_expression ! 4)
          = Inl e \<longrightarrow>
      update_cron cron_trigger cron_expression s
      = (Inl (HTTPException 400 (''Invalid cron expression: Invalid cron expression: '' @ e)), s))
   \<and> (5 \<le> length (split cron_expression)
       \<and> cron_trigger (split cron_expression ! 0) (split cron_expression ! 1)
            (split cron_expression ! 2) (split cron_expression ! 3) (split cron_expression ! 4)
          = Inr trigger \<longrightarrow>
      update_cron cron_trigger cron_expression (Running old)
      = (Inr (''Cron expression updated to: '' @ cron_expression), Running trigger)
      \<and> update_cron cron_trigger cron_expression Stopped
      = (Inr (''Cron expression updated to: '' @ cron_expression), Stopped))"
  by (simp add: update_cron_def update_schedule_def is_running_def Let_def)

theorem update_cron_validates_witness:
  "length (split ''bad cron'') < 5
   \<and> update_cron sample_trigger ''bad cron'' (Running (''0'', ''8'', ''*'', ''*'', ''*''))
      = (Inl (HTTPException 400
               ''Invalid cron expression: Cron expression must have at least 5 parts''),
         Running (''0'', ''8'', ''*'', ''*'', ''*''))
   \<and> update_cron sample_trigger ''bad 9 * * *'' (Running (''0'', ''8'', ''*'', ''*'', ''*''))
      = (Inl (HTTPException 400
               ''Invalid cron expression: Invalid cron expression: Unrecognized expression''),
         Running (''0'', ''8'', ''*'', ''*'', ''*''))
   \<and> update_cron sample_trigger ''0 9,16 * * 1-5'' (Running (''0'', ''8'', ''*'', ''*'', ''*''))
      = (Inr ''Cron expression updated to: 0 9,16 * * 1-5'',
         Running (''0'', ''9,16'', ''*'', ''*'', ''1-5''))
   \<and> start sample_trigger (''0'', ''9,16'', ''*'', ''*'', ''mon-fri'') ''0 8 * * *'' Stopped
      = Inr (Running (''0'', ''8'', ''*'', ''*'', ''*''))"
proof -
  let ?s = "Running (''0'', ''8'', ''*'', ''*'', ''*'')"
  have l1: "length (split ''bad cron'') < 5" by (simp add: split_samples)
  have l2: "5 \<le> length (split ''bad 9 * * *'')"
    and r2: "sample_trigger (split ''bad 9 * * *'' ! 0) (split ''bad 9 * * *'' ! 1)
               (split ''bad 9 * * *'' ! 2) (split ''bad 9 * * *'' ! 3) (split ''bad 9 * * *'' ! 4)
             = Inl ''Unrecognized expression''"
    by (simp_all add: split_samples sample_trigger_def)
  have l3: "5 \<le> length (split ''0 9,16 * * 1-5'')"
    and r3: "sample_trigger (split ''0 9,16 * * 1-5'' ! 0) (split ''0 9,16 * * 1-5'' ! 1)
               (split ''0 9,16 * * 1-5'' ! 2) (split ''0 9,16 * * 1-5'' ! 3)
               (split ''0 9,16 * * 1-5'' ! 4)
             = Inr (''0'', ''9,16'', ''*'', ''*'', ''1-5'')"
    by (simp_all add: split_samples sample_trigger_def)
  have st: "start sample_trigger (''0'', ''9,16'', ''*'', ''*'', ''mon-fri'') ''0 8 * * *'' Stopped
      = Inr ?s"
    by (simp add: start_def is_running_def split_samples sample_trigger_def Let_def)
  from update_cron_validates [where cron_trigger = sample_trigger and cron_expression = "''bad cron''"
      and s = ?s] l1
  have a: "update_cron sample_trigger ''bad cron'' ?s
      = (Inl (HTTPException 400
               ''Invalid cron expression: Cron expression must have at least 5 parts''), ?s)"
    by blast
  from update_cron_validates [where cron_trigger = sample_trigger
      and cron_expression = "''bad 9 * * *''" and s = ?s and e = "''Unrecognized expression''"] l2 r2
  have b: "update_cron sample_trigger ''bad 9 * * *'' ?s
      = (Inl (HTTPException 400
               ''Invalid cron expression: Invalid cron expression: Unrecognized expression''), ?s)"
    by simp
  from update_cron_validates [where cron_trigger = sample_trigger
      and cron_expression = "''0 9,16 * * 1-5''" and old = "(''0'', ''8'', ''*'', ''*'', ''*'')"
      and trigger = "(''0'', ''9,16'', ''*'', ''*'', ''1-5'')"] l3 r3
  have c: "update_cron sample_trigger ''0 9,16 * * 1-5'' ?s
      = (Inr ''Cron expression updated to: 0 9,16 * * 1-5'',
         Running (''0'', ''9,16'', ''*'', ''*'', ''1-5''))"
    by simp
  from l1 a b c st show ?thesis by blast
qed

end
